theory Spec2Isabelle
  imports Main "HOL-Library.Word"
begin

section \<open>The HTTP jobs of db1000n (src/job/http.go)\<close>

text \<open>
  The file defines two jobs, \<open>singleRequestJob\<close> and \<open>fastHTTPJob\<close>, and their helpers
  \<open>getHTTPJobConfigs\<close>, \<open>sendFastHTTPRequest\<close>, \<open>headerLoaderFunc\<close> and
  \<open>cookieLoaderFunc\<close>. Everything they call outside the file (the template engine, the
  HTTP client, the metrics package, the backoff controller, \<open>Next\<close>, the cookie
  parser and the clock) is a field of the environment record below, so every theorem holds
  for whatever those collaborators do. What the jobs do to the outside world is an ordered
  list of events.
\<close>

subsection \<open>Data\<close>

text \<open>
  A Go \<open>error\<close>: one produced by a collaborator, or \<open>fmt.Errorf("<prefix>: %w", err)\<close>.
\<close>

datatype error = Err string | Wrapf string error

text \<open>
  \<open>map[string]interface{}\<close> (\<open>config.Args\<close>, \<open>Request\<close>, \<open>Client\<close>): the entries, each
  value by its \<open>%v\<close> rendering; \<open>map_of\<close> looks a key up.
\<close>

type_synonym config_map = "(string \<times> string) list"

text \<open>\<open>%v\<close> of a map lookup: a missing key is the nil interface, printed \<open><nil>\<close>.\<close>

definition fmt_v :: "string option \<Rightarrow> string" where
  "fmt_v v = (case v of None \<Rightarrow> ''<nil>'' | Some s \<Rightarrow> s)"

record 'bc httpJobConfig =
  BackoffConfig :: "'bc option"
  Request :: config_map
  Client :: config_map

record 'bc GlobalConfig =
  global_ProxyURLs :: string
  global_Backoff :: 'bc

record ClientConfig =
  client_ProxyURLs :: string
  client_settings :: config_map

text \<open>\<open>metrics.Traffic\<close> and \<open>metrics.ProcessedTraffic\<close>; \<open>metrics.StatusSuccess\<close> and \<open>metrics.StatusFail\<close>.\<close>

datatype stream = Traffic | ProcessedTraffic

datatype status = StatusSuccess | StatusFail

text \<open>The fields the file attaches to a structured log record.\<close>

datatype zap_field =
    ZapError error
  | ZapAny string config_map
  | ZapByteString string string

text \<open>The response as \<open>client.Do\<close> leaves it, headers and cookies in visiting order.\<close>

record raw_response =
  resp_Body :: string
  resp_StatusCode :: int
  resp_Header :: "(string \<times> string) list"
  resp_Cookies :: "(string \<times> string) list"

text \<open>A parsed \<open>fasthttp.Cookie\<close>: what \<open>c.Value()\<close> and \<open>c.Expire()\<close> return.\<close>

record cookie =
  cookie_Value :: string
  cookie_Expire :: int

text \<open>
  The effects, in program order. \<open>BackoffIncrement\<close> and \<open>BackoffReset\<close> are the
  calls of \<open>backoffController.Increment()\<close> and \<open>backoffController.Reset()\<close>,
  \<open>Sleep t\<close> is \<open>utils.Sleep(ctx, t)\<close>. \<open>Initialised n\<close> is \<open>http.InitRequest\<close> returning the
  payload size \<open>n\<close>; \<open>ClientDo req r\<close> is a call of \<open>client.Do\<close> on \<open>req\<close> that returned \<open>r\<close>;
  \<open>StartWriter s\<close> is \<open>metrics.Default.NewWriter(s, uuid)\<close> followed by \<open>go w.Update(ctx, time.Second)\<close>.
\<close>

datatype 'req event =
    LogPrintf string
  | LoggerDebug string "zap_field list"
  | NewClient ClientConfig
  | StartWriter stream
  | Initialised "64 word"
  | WriterAdd stream "64 word"
  | MetricsWrite stream "64 word"
  | ClientDo 'req "error option"
  | IncHTTP string string status
  | BackoffIncrement
  | BackoffReset
  | Sleep int

text \<open>
  The collaborators. \<open>'req\<close> is \<open>fasthttp.Request\<close>, \<open>'rc\<close> is \<open>http.RequestConfig\<close>,
  \<open>'tpl\<close> is \<open>templates.MapStruct\<close>, \<open>'bc\<close> is \<open>utils.BackoffConfig\<close> and \<open>'b\<close> is
  \<open>utils.BackoffController\<close>. A function that the job calls once per iteration takes
  the number of the iteration, since its answer may change from call to call:
  \<^item> \<open>Next env i\<close>: \<open>jobConfig.Next(ctx)\<close> at the head of iteration \<open>i\<close>;
  \<^item> \<open>Execute env tpl i\<close>: \<open>utils.Decode(requestTpl.Execute(logger, ctx), &requestConfig)\<close>;
  \<^item> \<open>InitRequest env rc req\<close>: the size \<open>http.InitRequest(rc, req)\<close> returns and the request it leaves;
  \<^item> \<open>Do env i req\<close>: the error of \<open>client.Do(req, resp)\<close>, the request as the client leaves
    it and what it writes to the response (dropped when \<open>resp\<close> is nil);
  \<^item> \<open>Now env j\<close>: the \<open>j\<close>-th reading of \<open>time.Now()\<close>.
\<close>

record ('req, 'rc, 'tpl, 'bc, 'b) env =
  isInEncryptedContext :: bool
  ParseConfig :: "config_map \<Rightarrow> 'bc GlobalConfig \<Rightarrow> error + 'bc httpJobConfig"
  DecodeClient :: "config_map \<Rightarrow> error + ClientConfig"
  ParseAndExecute :: "string \<Rightarrow> string"
  ParseMapStruct :: "config_map \<Rightarrow> error + 'tpl"
  NonNilBackoffConfigOrDefault :: "'bc option \<Rightarrow> 'bc \<Rightarrow> 'bc"
  NewBackoffController :: "'bc \<Rightarrow> 'b"
  Increment :: "'b \<Rightarrow> 'b"
  Reset :: "'b \<Rightarrow> 'b"
  GetTimeout :: "'b \<Rightarrow> int"
  Next :: "nat \<Rightarrow> bool"
  Execute :: "'tpl \<Rightarrow> nat \<Rightarrow> error + 'rc"
  Path :: "'rc \<Rightarrow> string"
  AcquireRequest :: 'req
  InitRequest :: "'rc \<Rightarrow> 'req \<Rightarrow> 64 word \<times> 'req"
  Do :: "nat \<Rightarrow> 'req \<Rightarrow> error option \<times> 'req \<times> raw_response"
  Host :: "'req \<Rightarrow> string"
  Method :: "'req \<Rightarrow> string"
  ParseBytes :: "string \<Rightarrow> error + cookie"
  CookieExpireUnlimited :: int
  Now :: "nat \<Rightarrow> int"

text \<open>\<open>uint64(dataSize)\<close>: a conversion between 64-bit integers keeps the bits.\<close>

definition uint64 :: "64 word \<Rightarrow> 64 word" where
  "uint64 n = n"

subsection \<open>sendFastHTTPRequest\<close>

definition sendFastHTTPRequest ::
  "('req, 'rc, 'tpl, 'bc, 'b) env \<Rightarrow> nat \<Rightarrow> 'req
     \<Rightarrow> 'req event list \<times> error option \<times> 'req \<times> raw_response" where
  "sendFastHTTPRequest env i req =
     (case Do env i req of (r, req', resp) \<Rightarrow>
        (case r of
           Some err \<Rightarrow>
             ([ClientDo req (Some err),
               IncHTTP (Host env req') (Method env req') StatusFail], Some err, req', resp)
         | None \<Rightarrow>
             ([ClientDo req None,
               IncHTTP (Host env req') (Method env req') StatusSuccess], None, req', resp)))"

subsection \<open>getHTTPJobConfigs\<close>

definition getHTTPJobConfigs ::
  "('req, 'rc, 'tpl, 'bc, 'b) env \<Rightarrow> config_map \<Rightarrow> 'bc GlobalConfig
     \<Rightarrow> error + ('bc httpJobConfig \<times> ClientConfig \<times> 'tpl)" where
  "getHTTPJobConfigs env args global =
     (case ParseConfig env args global of
        Inl err \<Rightarrow> Inl (Wrapf ''error parsing job config'' err)
      | Inr jobConfig \<Rightarrow>
          (case DecodeClient env (Client jobConfig) of
             Inl err \<Rightarrow> Inl (Wrapf ''error parsing client config'' err)
           | Inr clientConfig0 \<Rightarrow>
               (let clientConfig =
                      (if global_ProxyURLs global \<noteq> []
                       then clientConfig0\<lparr>client_ProxyURLs :=
                              ParseAndExecute env (global_ProxyURLs global)\<rparr>
                       else clientConfig0)
                in case ParseMapStruct env (Request jobConfig) of
                     Inl err \<Rightarrow> Inl (Wrapf ''error parsing request config'' err)
                   | Inr requestTpl \<Rightarrow> Inr (jobConfig, clientConfig, requestTpl))))"

subsection \<open>fastHTTPJob\<close>

text \<open>
  Lines 156 to 166: the body of one iteration once the request template has been
  evaluated. It returns the events, the pooled request and the backoff controller.
\<close>

definition fastHTTPJob_body ::
  "('req, 'rc, 'tpl, 'bc, 'b) env \<Rightarrow> config_map \<Rightarrow> nat \<Rightarrow> 'rc \<Rightarrow> 'req \<Rightarrow> 'b
     \<Rightarrow> 'req event list \<times> 'req \<times> 'b" where
  "fastHTTPJob_body env args i requestConfig req b =
     (case InitRequest env requestConfig req of (dataSize, req1) \<Rightarrow>
        (case sendFastHTTPRequest env i req1 of (sent, r, req2, resp) \<Rightarrow>
           (case r of
              Some err \<Rightarrow>
                (let b' = Increment env b in
                 ([Initialised dataSize, WriterAdd Traffic (uint64 dataSize)] @ sent @
                  [LoggerDebug ''error sending request'' [ZapError err, ZapAny ''args'' args],
                   BackoffIncrement, Sleep (GetTimeout env b')], req2, b'))
            | None \<Rightarrow>
                ([Initialised dataSize, WriterAdd Traffic (uint64 dataSize)] @ sent @
                 [WriterAdd ProcessedTraffic (uint64 dataSize), BackoffReset],
                 req2, Reset env b))))"

text \<open>
  What a Go function \<open>(data interface{}, err error)\<close> returns: the data (\<open>None\<close> is nil)
  and the error (\<open>None\<close> is nil).
\<close>

type_synonym 'd go_return = "'d option \<times> error option"

text \<open>
  The loop of lines 150 to 167 from iteration \<open>i\<close> on. It runs as long as \<open>Next\<close> allows,
  so it takes fuel: with none left the answer is \<open>None\<close> (the job is still running) and
  the events are those of the iterations completed so far.
\<close>

fun fastHTTPJob_loop ::
  "('req, 'rc, 'tpl, 'bc, 'b) env \<Rightarrow> config_map \<Rightarrow> 'tpl \<Rightarrow> nat \<Rightarrow> nat \<Rightarrow> 'req \<Rightarrow> 'b
     \<Rightarrow> 'req event list \<times> unit go_return option" where
  "fastHTTPJob_loop env args requestTpl 0 i req b = ([], None)"
| "fastHTTPJob_loop env args requestTpl (Suc fuel) i req b =
     (if Next env i then
        (case Execute env requestTpl i of
           Inl err \<Rightarrow> ([], Some (None, Some (Wrapf ''error executing request template'' err)))
         | Inr requestConfig \<Rightarrow>
             (case fastHTTPJob_body env args i requestConfig req b of (evs, req', b') \<Rightarrow>
                (case fastHTTPJob_loop env args requestTpl fuel (Suc i) req' b' of
                   (rest, ret) \<Rightarrow> (evs @ rest, ret))))
      else ([], Some (None, None)))"

definition fastHTTPJob ::
  "('req, 'rc, 'tpl, 'bc, 'b) env \<Rightarrow> nat \<Rightarrow> 'bc GlobalConfig \<Rightarrow> config_map
     \<Rightarrow> 'req event list \<times> unit go_return option" where
  "fastHTTPJob env fuel globalConfig args =
     (case getHTTPJobConfigs env args globalConfig of
        Inl err \<Rightarrow> ([], Some (None, Some err))
      | Inr (jobConfig, clientConfig, requestTpl) \<Rightarrow>
          (let backoffController =
                 NewBackoffController env
                   (NonNilBackoffConfigOrDefault env (BackoffConfig jobConfig)
                      (global_Backoff globalConfig));
               started =
                 [NewClient clientConfig, StartWriter Traffic, StartWriter ProcessedTraffic] @
                 (if \<not> isInEncryptedContext env
                  then [LogPrintf (''Attacking '' @ fmt_v (map_of (Request jobConfig) ''path''))]
                  else [])
           in case fastHTTPJob_loop env args requestTpl fuel 0 (AcquireRequest env)
                     backoffController of
                (evs, ret) \<Rightarrow> (started @ evs, ret)))"

subsection \<open>singleRequestJob\<close>

text \<open>The value under \<open>"response"\<close> and the whole returned map.\<close>

record response_snapshot =
  body :: string
  status_code :: int
  headers :: "string \<rightharpoonup> string"
  cookies :: "string \<rightharpoonup> string"

record single_result =
  response :: response_snapshot
  result_error :: "error option"

definition headerLoaderFunc ::
  "(string \<rightharpoonup> string) \<Rightarrow> string \<Rightarrow> string \<Rightarrow> (string \<rightharpoonup> string)" where
  "headerLoaderFunc hs key val = hs(key \<mapsto> val)"

text \<open>
  What the cookie visitor reads and writes: the map it closes over, how many times the
  clock has been read, and the records it has handed to the logger.
\<close>

record 'req loader_state =
  ld_cookies :: "string \<rightharpoonup> string"
  ld_clock :: nat
  ld_log :: "'req event list"

text \<open>
  The clock is read only when the left operand of \<open>&&\<close> holds, that is when the cookie has
  an expiry.
\<close>

definition cookieLoaderFunc ::
  "('req, 'rc, 'tpl, 'bc, 'b) env \<Rightarrow> 'req loader_state \<Rightarrow> string \<Rightarrow> string
     \<Rightarrow> 'req loader_state" where
  "cookieLoaderFunc env st key val =
     (case ParseBytes env val of
        Inl err \<Rightarrow> st
      | Inr c \<Rightarrow>
          (let expire = cookie_Expire c in
           if expire \<noteq> CookieExpireUnlimited env then
             (let now = Now env (ld_clock st);
                  st1 = st\<lparr>ld_clock := Suc (ld_clock st)\<rparr>
              in if expire < now
                 then st1\<lparr>ld_log := ld_log st1 @
                        [LoggerDebug ''cookie from the request expired''
                           [ZapByteString ''cookie'' key]]\<rparr>
                 else st1\<lparr>ld_cookies := (ld_cookies st1)(key \<mapsto> cookie_Value c)\<rparr>)
           else st\<lparr>ld_cookies := (ld_cookies st)(key \<mapsto> cookie_Value c)\<rparr>))"

text \<open>\<open>resp.Header.VisitAll(f)\<close> and \<open>resp.Header.VisitAllCookie(f)\<close> call \<open>f\<close> on each entry in turn.\<close>

definition VisitAll ::
  "(string \<times> string) list \<Rightarrow> (string \<rightharpoonup> string) \<Rightarrow> (string \<rightharpoonup> string)" where
  "VisitAll hdrs hs = fold (\<lambda>(key, val) m. headerLoaderFunc m key val) hdrs hs"

definition VisitAllCookie ::
  "('req, 'rc, 'tpl, 'bc, 'b) env \<Rightarrow> (string \<times> string) list \<Rightarrow> 'req loader_state
     \<Rightarrow> 'req loader_state" where
  "VisitAllCookie env cs st = fold (\<lambda>(key, val) s. cookieLoaderFunc env s key val) cs st"

definition singleRequestJob ::
  "('req, 'rc, 'tpl, 'bc, 'b) env \<Rightarrow> 'bc GlobalConfig \<Rightarrow> config_map
     \<Rightarrow> 'req event list \<times> single_result go_return" where
  "singleRequestJob env globalConfig args =
     (case getHTTPJobConfigs env args globalConfig of
        Inl err \<Rightarrow> ([], None, Some err)
      | Inr (jobConfig, clientConfig, requestTpl) \<Rightarrow>
          (case Execute env requestTpl 0 of
             Inl err \<Rightarrow> ([], None, Some err)
           | Inr requestConfig \<Rightarrow>
               (case InitRequest env requestConfig (AcquireRequest env) of (dataSize, req) \<Rightarrow>
                  (case sendFastHTTPRequest env 0 req of (sent, err, req', resp) \<Rightarrow>
                     (let hs = VisitAll (resp_Header resp) Map.empty;
                          loaded = VisitAllCookie env (resp_Cookies resp)
                                     \<lparr>ld_cookies = Map.empty, ld_clock = 0, ld_log = []\<rparr>
                      in ([NewClient clientConfig] @
                          (if \<not> isInEncryptedContext env
                           then [LogPrintf (''Sent single http request to '' @
                                              Path env requestConfig)]
                           else []) @
                          [Initialised dataSize, MetricsWrite Traffic (uint64 dataSize)] @
                          sent @
                          (if err = None
                           then [MetricsWrite ProcessedTraffic (uint64 dataSize)] else []) @
                          ld_log loaded,
                          Some \<lparr>response =
                                  \<lparr>body = resp_Body resp,
                                   status_code = resp_StatusCode resp,
                                   headers = hs,
                                   cookies = ld_cookies loaded\<rparr>,
                                result_error = err\<rparr>,
                          None))))))"

section \<open>Reading a trace\<close>

subsection \<open>The two traffic streams\<close>

text \<open>
  The ordering the specification asks for, as an automaton over the events. After the
  payload has been sized (\<open>Sized n\<close>) the size is recorded to the attempted stream
  (\<open>Attempted n\<close>); only then may the transport be called; only after a call that returned
  nil (\<open>SentOk n\<close>) may the same size be recorded to the delivered stream. Any other
  order has no next phase. \<open>trafficMonitor.Add\<close> and \<open>metrics.Default.Write\<close> both
  record a size to a stream.
\<close>

datatype phase = Idle | Sized "64 word" | Attempted "64 word" | SentOk "64 word" | SentFail

definition recorded :: "'req event \<Rightarrow> (stream \<times> 64 word) option" where
  "recorded e =
     (case e of WriterAdd s n \<Rightarrow> Some (s, n) | MetricsWrite s n \<Rightarrow> Some (s, n) | _ \<Rightarrow> None)"

definition meter_step :: "phase \<Rightarrow> 'req event \<Rightarrow> phase option" where
  "meter_step p e =
     (case e of
        Initialised n \<Rightarrow> Some (Sized n)
      | ClientDo req r \<Rightarrow>
          (case p of Attempted n \<Rightarrow> Some (if r = None then SentOk n else SentFail)
                   | _ \<Rightarrow> None)
      | _ \<Rightarrow>
          (case recorded e of
             None \<Rightarrow> Some p
           | Some (Traffic, m) \<Rightarrow>
               (case p of Sized n \<Rightarrow> if m = n then Some (Attempted n) else None | _ \<Rightarrow> None)
           | Some (ProcessedTraffic, m) \<Rightarrow>
               (case p of SentOk n \<Rightarrow> if m = n then Some Idle else None | _ \<Rightarrow> None)))"

fun meter_run :: "phase \<Rightarrow> 'req event list \<Rightarrow> phase option" where
  "meter_run p [] = Some p"
| "meter_run p (e # es) = (case meter_step p e of None \<Rightarrow> None | Some q \<Rightarrow> meter_run q es)"

definition metered_in_order :: "'req event list \<Rightarrow> bool" where
  "metered_in_order tr = (meter_run Idle tr \<noteq> None)"

text \<open>
  The totals of a stream fed by a writer, the payload sizes in the order they were
  computed, and whether each transport call returned nil. Sizes are read as the
  unsigned 64-bit numbers the writers receive.
\<close>

definition total :: "stream \<Rightarrow> 'req event list \<Rightarrow> nat" where
  "total s tr =
     sum_list (map (\<lambda>e. case e of WriterAdd s' n \<Rightarrow> if s' = s then unat n else 0 | _ \<Rightarrow> 0) tr)"

definition sizes :: "'req event list \<Rightarrow> 64 word list" where
  "sizes tr = concat (map (\<lambda>e. case e of Initialised n \<Rightarrow> [n] | _ \<Rightarrow> []) tr)"

definition outcomes :: "'req event list \<Rightarrow> bool list" where
  "outcomes tr = concat (map (\<lambda>e. case e of ClientDo req r \<Rightarrow> [r = None] | _ \<Rightarrow> []) tr)"

definition attempted_sum :: "'req event list \<Rightarrow> nat" where
  "attempted_sum tr = sum_list (map unat (sizes tr))"

definition delivered_sum :: "'req event list \<Rightarrow> nat" where
  "delivered_sum tr =
     sum_list (map (\<lambda>(n, ok). if ok then unat n else 0) (zip (sizes tr) (outcomes tr)))"

subsection \<open>Pacing\<close>

text \<open>
  The pacing the specification asks for, again as an automaton, which also follows the
  backoff controller. A send is allowed when \<open>Ready\<close>. After a send that failed the
  controller must be incremented and the job must sleep for the timeout the controller
  then reports; after a send that succeeded the controller must be reset, and a sleep
  has no next state. A trace is paced when it ends \<open>Ready\<close>.
\<close>

datatype pace = Ready | Sent bool | Incremented

definition pace_step ::
  "('req, 'rc, 'tpl, 'bc, 'b) env \<Rightarrow> pace \<times> 'b \<Rightarrow> 'req event \<Rightarrow> (pace \<times> 'b) option" where
  "pace_step env s e =
     (case s of (p, b) \<Rightarrow>
        (case e of
           ClientDo req r \<Rightarrow> if p = Ready then Some (Sent (r = None), b) else None
         | BackoffIncrement \<Rightarrow> if p = Sent False then Some (Incremented, Increment env b) else None
         | Sleep t \<Rightarrow> if p = Incremented \<and> t = GetTimeout env b then Some (Ready, b) else None
         | BackoffReset \<Rightarrow> if p = Sent True then Some (Ready, Reset env b) else None
         | _ \<Rightarrow> Some s))"

fun pace_run ::
  "('req, 'rc, 'tpl, 'bc, 'b) env \<Rightarrow> pace \<times> 'b \<Rightarrow> 'req event list \<Rightarrow> (pace \<times> 'b) option" where
  "pace_run env s [] = Some s"
| "pace_run env s (e # es) =
     (case pace_step env s e of None \<Rightarrow> None | Some s' \<Rightarrow> pace_run env s' es)"

definition paced :: "('req, 'rc, 'tpl, 'bc, 'b) env \<Rightarrow> 'b \<Rightarrow> 'req event list \<Rightarrow> bool" where
  "paced env b tr = (case pace_run env (Ready, b) tr of Some (Ready, b') \<Rightarrow> True | _ \<Rightarrow> False)"

definition sleeps :: "'req event list \<Rightarrow> int list" where
  "sleeps tr = concat (map (\<lambda>e. case e of Sleep t \<Rightarrow> [t] | _ \<Rightarrow> []) tr)"

subsection \<open>Logs\<close>

text \<open>
  The lines written with \<open>log.Printf\<close>, the records handed to the injected logger, and
  the errors of the transport calls that failed.
\<close>

definition printf_lines :: "'req event list \<Rightarrow> string list" where
  "printf_lines tr = concat (map (\<lambda>e. case e of LogPrintf s \<Rightarrow> [s] | _ \<Rightarrow> []) tr)"

definition debug_records :: "'req event list \<Rightarrow> (string \<times> zap_field list) list" where
  "debug_records tr =
     concat (map (\<lambda>e. case e of LoggerDebug msg fs \<Rightarrow> [(msg, fs)] | _ \<Rightarrow> []) tr)"

definition send_errors :: "'req event list \<Rightarrow> error list" where
  "send_errors tr =
     concat (map (\<lambda>e. case e of ClientDo req (Some err) \<Rightarrow> [err] | _ \<Rightarrow> []) tr)"

subsection \<open>Names for parts of the jobs\<close>

text \<open>
  The events of \<open>fastHTTPJob\<close> before its loop, the controller its loop starts with, and
  the state the cookie visitor starts from.
\<close>

definition started ::
  "('req, 'rc, 'tpl, 'bc, 'b) env \<Rightarrow> 'bc httpJobConfig \<Rightarrow> ClientConfig \<Rightarrow> 'req event list" where
  "started env jc cc =
     [NewClient cc, StartWriter Traffic, StartWriter ProcessedTraffic] @
     (if \<not> isInEncryptedContext env
      then [LogPrintf (''Attacking '' @ fmt_v (map_of (Request jc) ''path''))]
      else [])"

definition first_backoff ::
  "('req, 'rc, 'tpl, 'bc, 'b) env \<Rightarrow> 'bc httpJobConfig \<Rightarrow> 'bc GlobalConfig \<Rightarrow> 'b" where
  "first_backoff env jc g =
     NewBackoffController env
       (NonNilBackoffConfigOrDefault env (BackoffConfig jc) (global_Backoff g))"

definition fresh_loader :: "'req loader_state" where
  "fresh_loader = \<lparr>ld_cookies = Map.empty, ld_clock = 0, ld_log = []\<rparr>"

subsection \<open>A concrete environment\<close>

text \<open>
  Collaborators to run the jobs on. The request and its template are the path; the
  backoff controller counts failures and waits 100 units per failure; \<open>Next\<close> allows
  \<open>stop\<close> iterations; the template fails at iteration \<open>bad\<close>; \<open>send\<close> gives the
  outcome of each transport call. The response has a repeated header and four cookies:
  one that expires later, one that has expired, one that does not parse and one without
  expiry. The clock starts at 1000.
\<close>

definition sample_response :: raw_response where
  "sample_response =
     \<lparr>resp_Body = ''ok'', resp_StatusCode = 200,
      resp_Header = [(''A'', ''1''), (''B'', ''2''), (''A'', ''3'')],
      resp_Cookies = [(''s'', ''new''), (''t'', ''old''), (''u'', ''bad''), (''v'', ''any'')]\<rparr>"

definition sample_cookies :: "(string \<times> cookie) list" where
  "sample_cookies =
     [(''new'', \<lparr>cookie_Value = ''1'', cookie_Expire = 2000\<rparr>),
      (''old'', \<lparr>cookie_Value = ''2'', cookie_Expire = 500\<rparr>),
      (''any'', \<lparr>cookie_Value = ''3'', cookie_Expire = 0\<rparr>)]"

definition sample_env ::
  "bool \<Rightarrow> nat \<Rightarrow> nat option \<Rightarrow> (nat \<Rightarrow> error option)
     \<Rightarrow> (string, string, string, nat, nat) env" where
  "sample_env enc stop bad send =
     \<lparr>isInEncryptedContext = enc,
      ParseConfig = (\<lambda>args g. Inr \<lparr>BackoffConfig = None, Request = args, Client = []\<rparr>),
      DecodeClient = (\<lambda>m. Inr \<lparr>client_ProxyURLs = [], client_settings = m\<rparr>),
      ParseAndExecute = (\<lambda>s. s),
      ParseMapStruct = (\<lambda>m. Inr (fmt_v (map_of m ''path''))),
      NonNilBackoffConfigOrDefault = (\<lambda>c d. case c of None \<Rightarrow> d | Some x \<Rightarrow> x),
      NewBackoffController = (\<lambda>c. 0),
      Increment = Suc,
      Reset = (\<lambda>b. 0),
      GetTimeout = (\<lambda>b. 100 * int b),
      Next = (\<lambda>i. i < stop),
      Execute = (\<lambda>tpl i. if Some i = bad then Inl (Err ''bad template'') else Inr tpl),
      Path = (\<lambda>rc. rc),
      AcquireRequest = [],
      InitRequest = (\<lambda>rc req. (of_nat (length rc), rc)),
      Do = (\<lambda>i req. (send i, req, sample_response)),
      Host = (\<lambda>req. req),
      Method = (\<lambda>req. ''GET''),
      ParseBytes = (\<lambda>v. case map_of sample_cookies v of
                           None \<Rightarrow> Inl (Err ''malformed'') | Some c \<Rightarrow> Inr c),
      CookieExpireUnlimited = 0,
      Now = (\<lambda>j. 1000 + int j)\<rparr>"

definition sample_global :: "nat GlobalConfig" where
  "sample_global = \<lparr>global_ProxyURLs = [], global_Backoff = 0\<rparr>"

definition sample_args :: config_map where
  "sample_args = [(''path'', ''/x'')]"

definition timeouts :: "nat \<Rightarrow> error option" where
  "timeouts i = Some (Err ''timeout'')"


section \<open>Lemmas\<close>




lemma fastHTTPJob_loop_step:
  assumes "Next env i" and "Execute env tpl i = Inr rc"
  shows "fastHTTPJob_loop env args tpl (Suc fuel) i req b =
           (fst (fastHTTPJob_body env args i rc req b) @
              fst (fastHTTPJob_loop env args tpl fuel (Suc i)
                     (fst (snd (fastHTTPJob_body env args i rc req b)))
                     (snd (snd (fastHTTPJob_body env args i rc req b)))),
            snd (fastHTTPJob_loop env args tpl fuel (Suc i)
                     (fst (snd (fastHTTPJob_body env args i rc req b)))
                     (snd (snd (fastHTTPJob_body env args i rc req b)))))"
  using assms by (simp add: split_beta)

lemma fastHTTPJob_loop_stop:
  "\<not> Next env i \<Longrightarrow> fastHTTPJob_loop env args tpl (Suc fuel) i req b = ([], Some (None, None))"
  by simp

lemma fastHTTPJob_loop_abort:
  "Next env i \<Longrightarrow> Execute env tpl i = Inl e \<Longrightarrow>
     fastHTTPJob_loop env args tpl (Suc fuel) i req b =
       ([], Some (None, Some (Wrapf ''error executing request template'' e)))"
  by simp

lemma fastHTTPJob_ok:
  assumes "getHTTPJobConfigs env args g = Inr (jc, cc, tpl)"
  shows "fastHTTPJob env fuel g args =
           (started env jc cc @
              fst (fastHTTPJob_loop env args tpl fuel 0 (AcquireRequest env) (first_backoff env jc g)),
            snd (fastHTTPJob_loop env args tpl fuel 0 (AcquireRequest env) (first_backoff env jc g)))"
  using assms by (simp add: fastHTTPJob_def started_def first_backoff_def split_beta Let_def)

lemma fastHTTPJob_bad_config:
  "getHTTPJobConfigs env args g = Inl e \<Longrightarrow> fastHTTPJob env fuel g args = ([], Some (None, Some e))"
  by (simp add: fastHTTPJob_def)

declare fastHTTPJob_loop.simps(2) [simp del]





lemma ld_log_cookieLoaderFunc:
  "\<exists>ds. ld_log (cookieLoaderFunc env st key val) = ld_log st @ ds \<and>
        (\<forall>d \<in> set ds. \<exists>k. d = LoggerDebug ''cookie from the request expired'' [ZapByteString ''cookie'' k])"
  by (auto simp: cookieLoaderFunc_def Let_def split: sum.splits)

lemma ld_log_VisitAllCookie:
  "\<exists>ds. ld_log (VisitAllCookie env cs st) = ld_log st @ ds \<and>
        (\<forall>d \<in> set ds. \<exists>k. d = LoggerDebug ''cookie from the request expired'' [ZapByteString ''cookie'' k])"
proof (induction cs arbitrary: st)
  case Nil
  then show ?case by (simp add: VisitAllCookie_def)
next
  case (Cons c cs)
  obtain key val where c: "c = (key, val)" by (cases c) auto
  obtain ds1 where ds1: "ld_log (cookieLoaderFunc env st key val) = ld_log st @ ds1"
    "\<forall>d \<in> set ds1. \<exists>k. d = LoggerDebug ''cookie from the request expired'' [ZapByteString ''cookie'' k]"
    using ld_log_cookieLoaderFunc by blast
  obtain ds2 where ds2: "ld_log (VisitAllCookie env cs (cookieLoaderFunc env st key val)) =
       ld_log (cookieLoaderFunc env st key val) @ ds2"
    "\<forall>d \<in> set ds2. \<exists>k. d = LoggerDebug ''cookie from the request expired'' [ZapByteString ''cookie'' k]"
    using Cons.IH by blast
  have "VisitAllCookie env (c # cs) st = VisitAllCookie env cs (cookieLoaderFunc env st key val)"
    by (simp add: VisitAllCookie_def c)
  with ds1 ds2 show ?case by (intro exI [of _ "ds1 @ ds2"]) auto
qed


lemma total_append: "total s (xs @ ys) = total s xs + total s ys"
  by (simp add: total_def)

lemma sizes_append: "sizes (xs @ ys) = sizes xs @ sizes ys"
  by (simp add: sizes_def)

lemma outcomes_append: "outcomes (xs @ ys) = outcomes xs @ outcomes ys"
  by (simp add: outcomes_def)

lemma body_facts:
  "\<exists>n ok. sizes (fst (fastHTTPJob_body env args i rc req b)) = [n] \<and>
          outcomes (fst (fastHTTPJob_body env args i rc req b)) = [ok] \<and>
          total Traffic (fst (fastHTTPJob_body env args i rc req b)) = unat n \<and>
          total ProcessedTraffic (fst (fastHTTPJob_body env args i rc req b)) = (if ok then unat n else 0)"
  by (auto simp: fastHTTPJob_body_def sendFastHTTPRequest_def sizes_def outcomes_def total_def
      uint64_def Let_def split: prod.splits option.splits)

lemma loop_totals:
  "length (sizes (fst (fastHTTPJob_loop env args tpl fuel i req b))) =
     length (outcomes (fst (fastHTTPJob_loop env args tpl fuel i req b))) \<and>
   total Traffic (fst (fastHTTPJob_loop env args tpl fuel i req b)) =
     attempted_sum (fst (fastHTTPJob_loop env args tpl fuel i req b)) \<and>
   total ProcessedTraffic (fst (fastHTTPJob_loop env args tpl fuel i req b)) =
     delivered_sum (fst (fastHTTPJob_loop env args tpl fuel i req b))"
proof (induction fuel arbitrary: i req b)
  case 0
  then show ?case by (simp add: sizes_def outcomes_def total_def attempted_sum_def delivered_sum_def)
next
  case (Suc fuel)
  show ?case
  proof (cases "Next env i")
    case False
    then show ?thesis
      by (simp add: fastHTTPJob_loop_stop sizes_def outcomes_def total_def attempted_sum_def delivered_sum_def)
  next
    case True
    show ?thesis
    proof (cases "Execute env tpl i")
      case (Inl e)
      with True show ?thesis
        by (simp add: fastHTTPJob_loop_abort sizes_def outcomes_def total_def attempted_sum_def delivered_sum_def)
    next
      case (Inr rc)
      obtain n ok where f:
        "sizes (fst (fastHTTPJob_body env args i rc req b)) = [n]"
        "outcomes (fst (fastHTTPJob_body env args i rc req b)) = [ok]"
        "total Traffic (fst (fastHTTPJob_body env args i rc req b)) = unat n"
        "total ProcessedTraffic (fst (fastHTTPJob_body env args i rc req b)) = (if ok then unat n else 0)"
        using body_facts [of env args i rc req b] by auto
      show ?thesis
        using Suc.IH [of "Suc i" "fst (snd (fastHTTPJob_body env args i rc req b))"
                         "snd (snd (fastHTTPJob_body env args i rc req b))"]
        by (simp add: fastHTTPJob_loop_step [OF True Inr] total_append sizes_append outcomes_append f
            attempted_sum_def delivered_sum_def)
    qed
  qed
qed


lemma started_facts:
  "sizes (started env jc cc) = [] \<and> outcomes (started env jc cc) = [] \<and> total s (started env jc cc) = 0"
  by (simp add: started_def sizes_def outcomes_def total_def)

lemma loop_running:
  "\<forall>j < k. Next env (i + j) \<and> (\<exists>rc. Execute env tpl (i + j) = Inr rc) \<Longrightarrow>
     snd (fastHTTPJob_loop env args tpl k i req b) = None \<and>
     length (sizes (fst (fastHTTPJob_loop env args tpl k i req b))) = k"
proof (induction k arbitrary: i req b)
  case 0
  then show ?case by (simp add: sizes_def)
next
  case (Suc k)
  from Suc.prems have n: "Next env i" and "\<exists>rc. Execute env tpl i = Inr rc" by force+
  then obtain rc where rc: "Execute env tpl i = Inr rc" by blast
  have "\<forall>j < k. Next env (Suc i + j) \<and> (\<exists>rc. Execute env tpl (Suc i + j) = Inr rc)"
    using Suc.prems by (metis Suc_less_eq add_Suc_shift)
  from Suc.IH [OF this] obtain n where
    "sizes (fst (fastHTTPJob_body env args i rc req b)) = [n]"
    using body_facts [of env args i rc req b] by auto
  with Suc.IH [OF \<open>\<forall>j < k. Next env (Suc i + j) \<and> (\<exists>rc. Execute env tpl (Suc i + j) = Inr rc)\<close>]
  show ?case
    by (simp add: fastHTTPJob_loop_step [OF n rc] sizes_append)
qed





lemma body_success:
  assumes "fst (Do env i (snd (InitRequest env rc req))) = None"
  shows "snd (snd (fastHTTPJob_body env args i rc req b)) = Reset env b"
    and "\<forall>t. Sleep t \<notin> set (fst (fastHTTPJob_body env args i rc req b))"
    and "BackoffReset \<in> set (fst (fastHTTPJob_body env args i rc req b))"
  using assms
  by (auto simp: fastHTTPJob_body_def sendFastHTTPRequest_def Let_def split: prod.splits option.splits)

lemma body_failure:
  assumes "fst (Do env i (snd (InitRequest env rc req))) = Some err"
  shows "snd (snd (fastHTTPJob_body env args i rc req b)) = Increment env b"
    and "last (fst (fastHTTPJob_body env args i rc req b)) = Sleep (GetTimeout env (Increment env b))"
    and "BackoffReset \<notin> set (fst (fastHTTPJob_body env args i rc req b))"
  using assms
  by (auto simp: fastHTTPJob_body_def sendFastHTTPRequest_def Let_def split: prod.splits option.splits)

lemma loop_aborts:
  assumes "\<forall>j < k. Next env (i + j) \<and> (\<exists>rc. Execute env tpl (i + j) = Inr rc)"
    and "Next env (i + k)" and "Execute env tpl (i + k) = Inl e"
  shows "fastHTTPJob_loop env args tpl (Suc (k + d)) i req b =
           (fst (fastHTTPJob_loop env args tpl k i req b),
            Some (None, Some (Wrapf ''error executing request template'' e)))"
  using assms
proof (induction k arbitrary: i req b)
  case 0
  then show ?case by (simp add: fastHTTPJob_loop_abort)
next
  case (Suc k)
  from Suc.prems(1) have n: "Next env i" and "\<exists>rc. Execute env tpl i = Inr rc" by force+
  then obtain rc where rc: "Execute env tpl i = Inr rc" by blast
  have rest: "\<forall>j < k. Next env (Suc i + j) \<and> (\<exists>rc. Execute env tpl (Suc i + j) = Inr rc)"
    using Suc.prems(1) by (metis Suc_less_eq add_Suc_shift)
  have "fastHTTPJob_loop env args tpl (Suc (k + d)) (Suc i) req' b' =
           (fst (fastHTTPJob_loop env args tpl k (Suc i) req' b'),
            Some (None, Some (Wrapf ''error executing request template'' e)))" for req' b'
    using Suc.IH [OF rest] Suc.prems(2,3) by simp
  then show ?case
    by (simp add: fastHTTPJob_loop_step [OF n rc])
qed

lemma loop_stops:
  assumes "\<forall>j < k. Next env (i + j) \<and> (\<exists>rc. Execute env tpl (i + j) = Inr rc)"
    and "\<not> Next env (i + k)"
  shows "fastHTTPJob_loop env args tpl (Suc (k + d)) i req b =
           (fst (fastHTTPJob_loop env args tpl k i req b), Some (None, None))"
  using assms
proof (induction k arbitrary: i req b)
  case 0
  then show ?case by (simp add: fastHTTPJob_loop_stop)
next
  case (Suc k)
  from Suc.prems(1) have n: "Next env i" and "\<exists>rc. Execute env tpl i = Inr rc" by force+
  then obtain rc where rc: "Execute env tpl i = Inr rc" by blast
  have rest: "\<forall>j < k. Next env (Suc i + j) \<and> (\<exists>rc. Execute env tpl (Suc i + j) = Inr rc)"
    using Suc.prems(1) by (metis Suc_less_eq add_Suc_shift)
  have "fastHTTPJob_loop env args tpl (Suc (k + d)) (Suc i) req' b' =
           (fst (fastHTTPJob_loop env args tpl k (Suc i) req' b'), Some (None, None))" for req' b'
    using Suc.IH [OF rest] Suc.prems(2) by simp
  then show ?case
    by (simp add: fastHTTPJob_loop_step [OF n rc])
qed

lemma loop_error_is_template_error:
  "snd (fastHTTPJob_loop env args tpl fuel i req b) = Some (d, Some err) \<Longrightarrow>
     d = None \<and> (\<exists>j e. Next env j \<and> Execute env tpl j = Inl e \<and>
                      err = Wrapf ''error executing request template'' e)"
proof (induction fuel arbitrary: i req b)
  case 0
  then show ?case by simp
next
  case (Suc fuel)
  show ?case
  proof (cases "Next env i")
    case False
    with Suc.prems show ?thesis by (simp add: fastHTTPJob_loop_stop)
  next
    case True
    show ?thesis
    proof (cases "Execute env tpl i")
      case (Inl e)
      with True Suc.prems show ?thesis by (auto simp: fastHTTPJob_loop_abort)
    next
      case (Inr rc)
      with True Suc.prems Suc.IH show ?thesis
        by (simp add: fastHTTPJob_loop_step [OF True Inr])
    qed
  qed
qed

lemma getHTTPJobConfigs_error:
  "getHTTPJobConfigs env args g = Inl err \<Longrightarrow>
     (\<exists>e. ParseConfig env args g = Inl e \<and> err = Wrapf ''error parsing job config'' e) \<or>
     (\<exists>jc e. ParseConfig env args g = Inr jc \<and> DecodeClient env (Client jc) = Inl e \<and>
              err = Wrapf ''error parsing client config'' e) \<or>
     (\<exists>jc e. ParseConfig env args g = Inr jc \<and> ParseMapStruct env (Request jc) = Inl e \<and>
              err = Wrapf ''error parsing request config'' e)"
  by (auto simp: getHTTPJobConfigs_def Let_def split: sum.splits)

lemma clientdo_count_body:
  "length (outcomes (fst (fastHTTPJob_body env args i rc req b))) = 1"
  using body_facts [of env args i rc req b] by auto

lemma VisitAll_map_of: "VisitAll hdrs m = m ++ map_of (rev hdrs)"
proof (induction hdrs arbitrary: m)
  case Nil
  then show ?case by (simp add: VisitAll_def)
next
  case (Cons h hs)
  obtain k v where h: "h = (k, v)" by (cases h) auto
  have "VisitAll (h # hs) m = VisitAll hs (m(k \<mapsto> v))"
    by (simp add: VisitAll_def headerLoaderFunc_def h)
  also have "\<dots> = m(k \<mapsto> v) ++ map_of (rev hs)" by (rule Cons.IH)
  also have "\<dots> = m ++ map_of (rev (h # hs))"
    by (simp add: h map_add_def fun_eq_iff split: option.splits)
  finally show ?case .
qed

lemma VisitAllCookie_Cons:
  "VisitAllCookie env ((key, val) # cs) st = VisitAllCookie env cs (cookieLoaderFunc env st key val)"
  by (simp add: VisitAllCookie_def)

lemma VisitAllCookie_Nil: "VisitAllCookie env [] st = st"
  by (simp add: VisitAllCookie_def)

lemma cookieLoaderFunc_clock:
  "ld_clock (cookieLoaderFunc env st key val) = ld_clock st \<or>
   ld_clock (cookieLoaderFunc env st key val) = Suc (ld_clock st)"
  by (simp add: cookieLoaderFunc_def Let_def split: sum.splits)

lemma cookieLoaderFunc_entry:
  assumes "ld_cookies (cookieLoaderFunc env st key val) k = Some v"
  shows "ld_cookies st k = Some v \<or>
         (k = key \<and> (\<exists>c. ParseBytes env val = Inr c \<and> cookie_Value c = v \<and>
            (cookie_Expire c = CookieExpireUnlimited env \<or>
             \<not> cookie_Expire c < Now env (ld_clock st))))"
  using assms
  by (auto simp: cookieLoaderFunc_def Let_def split: sum.splits if_splits)

lemma cookieLoaderFunc_keeps:
  "ld_cookies st k \<noteq> None \<Longrightarrow> ld_cookies (cookieLoaderFunc env st key val) k \<noteq> None"
  by (auto simp: cookieLoaderFunc_def Let_def split: sum.splits)

lemma VisitAllCookie_keeps:
  "ld_cookies st k \<noteq> None \<Longrightarrow> ld_cookies (VisitAllCookie env cs st) k \<noteq> None"
proof (induction cs arbitrary: st)
  case Nil
  then show ?case by (simp add: VisitAllCookie_Nil)
next
  case (Cons c cs)
  obtain key val where c: "c = (key, val)" by (cases c) auto
  show ?case
    unfolding c VisitAllCookie_Cons
    by (rule Cons.IH) (rule cookieLoaderFunc_keeps [OF Cons.prems])
qed

lemma VisitAllCookie_clock:
  "ld_clock st \<le> ld_clock (VisitAllCookie env cs st) \<and>
   ld_clock (VisitAllCookie env cs st) \<le> ld_clock st + length cs"
proof (induction cs arbitrary: st)
  case Nil
  then show ?case by (simp add: VisitAllCookie_Nil)
next
  case (Cons c cs)
  obtain key val where c: "c = (key, val)" by (cases c) auto
  show ?case
    using Cons.IH [of "cookieLoaderFunc env st key val"] cookieLoaderFunc_clock [of env st key val]
    unfolding c VisitAllCookie_Cons by auto
qed

lemma VisitAllCookie_entry:
  assumes "ld_cookies (VisitAllCookie env cs st) k = Some v"
  shows "ld_cookies st k = Some v \<or>
         (\<exists>raw c j. (k, raw) \<in> set cs \<and> ParseBytes env raw = Inr c \<and> cookie_Value c = v \<and>
            (cookie_Expire c = CookieExpireUnlimited env \<or>
             (ld_clock st \<le> j \<and> j < ld_clock st + length cs \<and> \<not> cookie_Expire c < Now env j)))"
  using assms
proof (induction cs arbitrary: st)
  case Nil
  then show ?case by (simp add: VisitAllCookie_Nil)
next
  case (Cons c cs)
  obtain key val where c: "c = (key, val)" by (cases c) auto
  let ?st = "cookieLoaderFunc env st key val"
  from Cons.prems have "ld_cookies (VisitAllCookie env cs ?st) k = Some v"
    by (simp add: c VisitAllCookie_Cons)
  from Cons.IH [OF this] consider
      (old) "ld_cookies ?st k = Some v"
    | (new) raw c' j where "(k, raw) \<in> set cs" "ParseBytes env raw = Inr c'" "cookie_Value c' = v"
        "cookie_Expire c' = CookieExpireUnlimited env \<or>
           (ld_clock ?st \<le> j \<and> j < ld_clock ?st + length cs \<and> \<not> cookie_Expire c' < Now env j)"
    by blast
  then show ?case
  proof cases
    case old
    from cookieLoaderFunc_entry [OF old] show ?thesis
    proof
      assume "ld_cookies st k = Some v"
      then show ?thesis by simp
    next
      assume "k = key \<and> (\<exists>c. ParseBytes env val = Inr c \<and> cookie_Value c = v \<and>
            (cookie_Expire c = CookieExpireUnlimited env \<or>
             \<not> cookie_Expire c < Now env (ld_clock st)))"
      then obtain c0 where "k = key" "ParseBytes env val = Inr c0" "cookie_Value c0 = v"
        "cookie_Expire c0 = CookieExpireUnlimited env \<or> \<not> cookie_Expire c0 < Now env (ld_clock st)"
        by blast
      then have "(k, val) \<in> set (c # cs) \<and> ParseBytes env val = Inr c0 \<and> cookie_Value c0 = v \<and>
            (cookie_Expire c0 = CookieExpireUnlimited env \<or>
             (ld_clock st \<le> ld_clock st \<and> ld_clock st < ld_clock st + length (c # cs) \<and>
              \<not> cookie_Expire c0 < Now env (ld_clock st)))"
        by (simp add: c)
      then show ?thesis by blast
    qed
  next
    case new
    have "ld_clock st \<le> ld_clock ?st \<and> ld_clock ?st \<le> Suc (ld_clock st)"
      using cookieLoaderFunc_clock [of env st key val] by auto
    with new(4) have "cookie_Expire c' = CookieExpireUnlimited env \<or>
           (ld_clock st \<le> j \<and> j < ld_clock st + length (c # cs) \<and> \<not> cookie_Expire c' < Now env j)"
      by auto
    with new(1-3) have "(k, raw) \<in> set (c # cs) \<and> ParseBytes env raw = Inr c' \<and> cookie_Value c' = v \<and>
         (cookie_Expire c' = CookieExpireUnlimited env \<or>
           (ld_clock st \<le> j \<and> j < ld_clock st + length (c # cs) \<and> \<not> cookie_Expire c' < Now env j))"
      by simp
    then show ?thesis by blast
  qed
qed

lemma cookieLoaderFunc_unparseable:
  "ParseBytes env val = Inl e \<Longrightarrow> cookieLoaderFunc env st key val = st"
  by (simp add: cookieLoaderFunc_def)

lemma cookieLoaderFunc_unlimited:
  "ParseBytes env val = Inr c \<Longrightarrow> cookie_Expire c = CookieExpireUnlimited env \<Longrightarrow>
     cookieLoaderFunc env st key val = st\<lparr>ld_cookies := (ld_cookies st)(key \<mapsto> cookie_Value c)\<rparr>"
  by (simp add: cookieLoaderFunc_def)

lemma VisitAllCookie_unlimited:
  assumes "(key, val) \<in> set cs" and "ParseBytes env val = Inr c"
    and "cookie_Expire c = CookieExpireUnlimited env"
  shows "ld_cookies (VisitAllCookie env cs st) key \<noteq> None"
  using assms(1)
proof (induction cs arbitrary: st)
  case Nil
  then show ?case by simp
next
  case (Cons x cs)
  obtain k v where x: "x = (k, v)" by (cases x) auto
  show ?case
  proof (cases "x = (key, val)")
    case True
    then have "ld_cookies (cookieLoaderFunc env st key val) key \<noteq> None"
      by (simp add: cookieLoaderFunc_unlimited [OF assms(2,3)])
    then show ?thesis
      unfolding True VisitAllCookie_Cons by (rule VisitAllCookie_keeps)
  next
    case False
    with Cons.prems have "(key, val) \<in> set cs" by auto
    from Cons.IH [OF this] show ?thesis
      unfolding x VisitAllCookie_Cons .
  qed
qed

lemma singleRequestJob_ok:
  assumes "getHTTPJobConfigs env args g = Inr (jc, cc, tpl)" and "Execute env tpl 0 = Inr rc"
  shows "snd (singleRequestJob env g args) =
     (Some \<lparr>response =
              \<lparr>body = resp_Body (snd (snd (Do env 0 (snd (InitRequest env rc (AcquireRequest env)))))),
               status_code = resp_StatusCode (snd (snd (Do env 0 (snd (InitRequest env rc (AcquireRequest env)))))),
               headers = VisitAll (resp_Header (snd (snd (Do env 0 (snd (InitRequest env rc (AcquireRequest env))))))) Map.empty,
               cookies = ld_cookies (VisitAllCookie env
                  (resp_Cookies (snd (snd (Do env 0 (snd (InitRequest env rc (AcquireRequest env)))))))
                  fresh_loader)\<rparr>,
            result_error = fst (Do env 0 (snd (InitRequest env rc (AcquireRequest env))))\<rparr>,
      None)"
  using assms
  by (simp add: singleRequestJob_def sendFastHTTPRequest_def fresh_loader_def split_beta Let_def
      split: option.splits)

lemma sample_env_fields:
  "isInEncryptedContext (sample_env enc stop bad send) = enc"
  "NewBackoffController (sample_env enc stop bad send) c = 0"
  "NonNilBackoffConfigOrDefault (sample_env enc stop bad send) None d = d"
  "Increment (sample_env enc stop bad send) b = Suc b"
  "Reset (sample_env enc stop bad send) b = 0"
  "GetTimeout (sample_env enc stop bad send) b = 100 * int b"
  "Next (sample_env enc stop bad send) i = (i < stop)"
  "Execute (sample_env enc stop bad send) tpl i =
     (if Some i = bad then Inl (Err ''bad template'') else Inr tpl)"
  "Path (sample_env enc stop bad send) rc = rc"
  "AcquireRequest (sample_env enc stop bad send) = []"
  "InitRequest (sample_env enc stop bad send) rc req = (of_nat (length rc), rc)"
  "Do (sample_env enc stop bad send) i req = (send i, req, sample_response)"
  "Host (sample_env enc stop bad send) req = req"
  "Method (sample_env enc stop bad send) req = ''GET''"
  "ParseBytes (sample_env enc stop bad send) v =
     (case map_of sample_cookies v of None \<Rightarrow> Inl (Err ''malformed'') | Some c \<Rightarrow> Inr c)"
  "CookieExpireUnlimited (sample_env enc stop bad send) = 0"
  "Now (sample_env enc stop bad send) j = 1000 + int j"
  by (simp_all add: sample_env_def)

lemma sample_configs:
  "getHTTPJobConfigs (sample_env enc stop bad send) args sample_global =
     Inr (\<lparr>BackoffConfig = None, Request = args, Client = []\<rparr>,
          \<lparr>client_ProxyURLs = [], client_settings = []\<rparr>,
          fmt_v (map_of args ''path''))"
  by (simp add: getHTTPJobConfigs_def sample_env_def sample_global_def)

lemma sample_global_fields:
  "global_Backoff sample_global = 0" "global_ProxyURLs sample_global = []"
  by (simp_all add: sample_global_def)

lemma sample_path: "fmt_v (map_of sample_args ''path'') = ''/x''"
  by (simp add: sample_args_def fmt_v_def)

lemmas sample_run =
  fastHTTPJob_ok [OF sample_configs] started_def first_backoff_def fastHTTPJob_loop.simps
  fastHTTPJob_body_def sendFastHTTPRequest_def sample_env_fields sample_global_fields
  sample_path uint64_def

lemma logs_append:
  "printf_lines (xs @ ys) = printf_lines xs @ printf_lines ys"
  "debug_records (xs @ ys) = debug_records xs @ debug_records ys"
  "send_errors (xs @ ys) = send_errors xs @ send_errors ys"
  "sleeps (xs @ ys) = sleeps xs @ sleeps ys"
  by (simp_all add: printf_lines_def debug_records_def send_errors_def sleeps_def)

lemma logs_Nil:
  "printf_lines [] = []" "debug_records [] = []" "send_errors [] = []" "sleeps [] = []"
  by (simp_all add: printf_lines_def debug_records_def send_errors_def sleeps_def)

lemma body_logs:
  "printf_lines (fst (fastHTTPJob_body env args i rc req b)) = [] \<and>
   debug_records (fst (fastHTTPJob_body env args i rc req b)) =
     map (\<lambda>err. (''error sending request'', [ZapError err, ZapAny ''args'' args]))
       (send_errors (fst (fastHTTPJob_body env args i rc req b))) \<and>
   length (sleeps (fst (fastHTTPJob_body env args i rc req b))) =
     length (send_errors (fst (fastHTTPJob_body env args i rc req b)))"
  by (simp add: fastHTTPJob_body_def sendFastHTTPRequest_def printf_lines_def debug_records_def
      send_errors_def sleeps_def split_beta Let_def split: option.splits)

lemma loop_logs:
  "printf_lines (fst (fastHTTPJob_loop env args tpl fuel i req b)) = [] \<and>
   debug_records (fst (fastHTTPJob_loop env args tpl fuel i req b)) =
     map (\<lambda>err. (''error sending request'', [ZapError err, ZapAny ''args'' args]))
       (send_errors (fst (fastHTTPJob_loop env args tpl fuel i req b))) \<and>
   length (sleeps (fst (fastHTTPJob_loop env args tpl fuel i req b))) =
     length (send_errors (fst (fastHTTPJob_loop env args tpl fuel i req b)))"
proof (induction fuel arbitrary: i req b)
  case 0
  then show ?case by (simp add: logs_Nil)
next
  case (Suc fuel)
  show ?case
  proof (cases "Next env i")
    case False
    then show ?thesis by (simp add: fastHTTPJob_loop_stop logs_Nil)
  next
    case True
    show ?thesis
    proof (cases "Execute env tpl i")
      case (Inl e)
      with True show ?thesis by (simp add: fastHTTPJob_loop_abort logs_Nil)
    next
      case (Inr rc)
      show ?thesis
        using Suc.IH [of "Suc i" "fst (snd (fastHTTPJob_body env args i rc req b))"
                         "snd (snd (fastHTTPJob_body env args i rc req b))"]
          body_logs [of env args i rc req b]
        by (simp add: fastHTTPJob_loop_step [OF True Inr] logs_append)
    qed
  qed
qed

lemma started_logs:
  "printf_lines (started env jc cc) =
     (if isInEncryptedContext env then []
      else [''Attacking '' @ fmt_v (map_of (Request jc) ''path'')])"
  "debug_records (started env jc cc) = []"
  "send_errors (started env jc cc) = []"
  "sleeps (started env jc cc) = []"
  by (simp_all add: started_def printf_lines_def debug_records_def send_errors_def sleeps_def)

lemma fastHTTPJob_logs:
  "(isInEncryptedContext env \<longrightarrow> printf_lines (fst (fastHTTPJob env fuel g args)) = []) \<and>
   debug_records (fst (fastHTTPJob env fuel g args)) =
     map (\<lambda>err. (''error sending request'', [ZapError err, ZapAny ''args'' args]))
       (send_errors (fst (fastHTTPJob env fuel g args))) \<and>
   length (sleeps (fst (fastHTTPJob env fuel g args))) =
     length (send_errors (fst (fastHTTPJob env fuel g args)))"
proof (cases "getHTTPJobConfigs env args g")
  case (Inl e)
  then show ?thesis by (simp add: fastHTTPJob_bad_config logs_Nil)
next
  case (Inr cfg)
  obtain jc cc tpl where cfg: "cfg = (jc, cc, tpl)" by (cases cfg) auto
  show ?thesis
    using loop_logs [of env args tpl fuel 0 "AcquireRequest env" "first_backoff env jc g"]
    by (simp add: fastHTTPJob_ok [OF Inr [unfolded cfg]] logs_append started_logs)
qed

lemma quiet_cookie_log:
  assumes "\<forall>d \<in> set ds. \<exists>k. d = LoggerDebug ''cookie from the request expired'' [ZapByteString ''cookie'' k]"
  shows "printf_lines ds = [] \<and> set (map fst (debug_records ds)) \<subseteq> {''cookie from the request expired''}"
  using assms
proof (induction ds)
  case Nil
  then show ?case by (simp add: logs_Nil)
next
  case (Cons d ds)
  then obtain k where "d = LoggerDebug ''cookie from the request expired'' [ZapByteString ''cookie'' k]"
    by auto
  moreover have "printf_lines ds = [] \<and> set (map fst (debug_records ds)) \<subseteq> {''cookie from the request expired''}"
    using Cons by simp
  ultimately show ?case
    using logs_append [of "[d]" ds] by (simp add: printf_lines_def debug_records_def)
qed

lemma singleRequestJob_trace:
  assumes "getHTTPJobConfigs env args g = Inr (jc, cc, tpl)" and "Execute env tpl 0 = Inr rc"
  shows "fst (singleRequestJob env g args) =
     [NewClient cc] @
     (if \<not> isInEncryptedContext env
      then [LogPrintf (''Sent single http request to '' @ Path env rc)] else []) @
     [Initialised (fst (InitRequest env rc (AcquireRequest env))),
      MetricsWrite Traffic (uint64 (fst (InitRequest env rc (AcquireRequest env))))] @
     fst (sendFastHTTPRequest env 0 (snd (InitRequest env rc (AcquireRequest env)))) @
     (if fst (Do env 0 (snd (InitRequest env rc (AcquireRequest env)))) = None
      then [MetricsWrite ProcessedTraffic (uint64 (fst (InitRequest env rc (AcquireRequest env))))]
      else []) @
     ld_log (VisitAllCookie env
        (resp_Cookies (snd (snd (Do env 0 (snd (InitRequest env rc (AcquireRequest env)))))))
        fresh_loader)"
  using assms
  by (simp add: singleRequestJob_def sendFastHTTPRequest_def fresh_loader_def split_beta Let_def
      split: option.splits)

lemma singleRequestJob_logs:
  "(isInEncryptedContext env \<longrightarrow> printf_lines (fst (singleRequestJob env g args)) = []) \<and>
   set (map fst (debug_records (fst (singleRequestJob env g args)))) \<subseteq>
     {''cookie from the request expired''}"
proof (cases "getHTTPJobConfigs env args g")
  case (Inl e)
  then show ?thesis by (simp add: singleRequestJob_def logs_Nil)
next
  case (Inr cfg)
  obtain jc cc tpl where cfg: "cfg = (jc, cc, tpl)" by (cases cfg) auto
  show ?thesis
  proof (cases "Execute env tpl 0")
    case (Inl e)
    with Inr cfg show ?thesis by (simp add: singleRequestJob_def logs_Nil)
  next
    case rc: (Inr rc)
    let ?ds = "ld_log (VisitAllCookie env
        (resp_Cookies (snd (snd (Do env 0 (snd (InitRequest env rc (AcquireRequest env)))))))
        fresh_loader)"
    have "\<forall>d \<in> set ?ds. \<exists>k. d = LoggerDebug ''cookie from the request expired'' [ZapByteString ''cookie'' k]"
      using ld_log_VisitAllCookie [of env _ "fresh_loader :: 'a loader_state"]
      by (auto simp: fresh_loader_def)
    from quiet_cookie_log [OF this] show ?thesis
      by (simp add: singleRequestJob_trace [OF Inr [unfolded cfg] rc] logs_append
          sendFastHTTPRequest_def split_beta printf_lines_def debug_records_def
          split: option.splits)
  qed
qed

lemma meter_rejects_send_before_record:
  "\<not> metered_in_order [Initialised 2, ClientDo req None, WriterAdd Traffic 2]"
  by (simp add: metered_in_order_def meter_step_def recorded_def)

lemma meter_rejects_delivery_after_failure:
  "\<not> metered_in_order
        [Initialised 2, WriterAdd Traffic 2, ClientDo req (Some err), WriterAdd ProcessedTraffic 2]"
  by (simp add: metered_in_order_def meter_step_def recorded_def)

lemma pace_rejects_sleep_after_success:
  "\<not> paced env b [ClientDo req None, BackoffReset, Sleep t]"
  by (simp add: paced_def pace_step_def)

lemma fastHTTPJob_error:
  assumes ret: "snd (fastHTTPJob env fuel g args) = Some (data, Some err)"
  shows "data = None \<and>
         (getHTTPJobConfigs env args g = Inl err \<or>
          (\<exists>jc cc tpl j e. getHTTPJobConfigs env args g = Inr (jc, cc, tpl) \<and> Next env j \<and>
                Execute env tpl j = Inl e \<and>
                err = Wrapf ''error executing request template'' e))"
proof (cases "getHTTPJobConfigs env args g")
  case (Inl e)
  with ret show ?thesis by (simp add: fastHTTPJob_bad_config)
next
  case (Inr cfg)
  obtain jc cc tpl where cfg: "cfg = (jc, cc, tpl)" by (cases cfg) auto
  from ret have "snd (fastHTTPJob_loop env args tpl fuel 0 (AcquireRequest env)
                   (first_backoff env jc g)) = Some (data, Some err)"
    by (simp add: fastHTTPJob_ok [OF Inr [unfolded cfg]])
  from loop_error_is_template_error [OF this] obtain j e where
    "data = None" "Next env j" "Execute env tpl j = Inl e"
    "err = Wrapf ''error executing request template'' e"
    by auto
  then have "getHTTPJobConfigs env args g = Inr (jc, cc, tpl) \<and> Next env j \<and>
                Execute env tpl j = Inl e \<and>
                err = Wrapf ''error executing request template'' e"
    using Inr cfg by simp
  then have "\<exists>jc cc tpl j e. getHTTPJobConfigs env args g = Inr (jc, cc, tpl) \<and> Next env j \<and>
                Execute env tpl j = Inl e \<and>
                err = Wrapf ''error executing request template'' e"
    by (intro exI)
  with \<open>data = None\<close> show ?thesis by simp
qed

lemma sample_single_configs:
  "getHTTPJobConfigs (sample_env enc stop bad send) sample_args sample_global =
     Inr (\<lparr>BackoffConfig = None, Request = sample_args, Client = []\<rparr>,
          \<lparr>client_ProxyURLs = [], client_settings = []\<rparr>, ''/x'')"
  by (simp add: sample_configs sample_path)

lemma sample_response_fields:
  "resp_Body sample_response = ''ok''"
  "resp_StatusCode sample_response = 200"
  "resp_Header sample_response = [(''A'', ''1''), (''B'', ''2''), (''A'', ''3'')]"
  "resp_Cookies sample_response = [(''s'', ''new''), (''t'', ''old''), (''u'', ''bad''), (''v'', ''any'')]"
  by (simp_all add: sample_response_def)

lemma sample_parse:
  "ParseBytes (sample_env enc stop bad send) ''new'' = Inr \<lparr>cookie_Value = ''1'', cookie_Expire = 2000\<rparr>"
  "ParseBytes (sample_env enc stop bad send) ''old'' = Inr \<lparr>cookie_Value = ''2'', cookie_Expire = 500\<rparr>"
  "ParseBytes (sample_env enc stop bad send) ''bad'' = Inl (Err ''malformed'')"
  "ParseBytes (sample_env enc stop bad send) ''any'' = Inr \<lparr>cookie_Value = ''3'', cookie_Expire = 0\<rparr>"
  by (simp_all add: sample_env_fields sample_cookies_def)

lemma sample_loaded:
  "VisitAllCookie (sample_env enc stop bad send)
     [(''s'', ''new''), (''t'', ''old''), (''u'', ''bad''), (''v'', ''any'')] fresh_loader =
     \<lparr>ld_cookies = [''s'' \<mapsto> ''1'', ''v'' \<mapsto> ''3''], ld_clock = 2,
      ld_log = [LoggerDebug ''cookie from the request expired'' [ZapByteString ''cookie'' ''t'']]\<rparr>"
  by (simp add: VisitAllCookie_def cookieLoaderFunc_def sample_parse sample_response_fields
      fresh_loader_def sample_env_fields(16,17) Let_def)

lemma snapshot_cookie_origin:
  assumes clock: "\<forall>j < length cs. t \<le> Now env j"
    and entry: "ld_cookies (VisitAllCookie env cs fresh_loader) k = Some v"
  shows "\<exists>raw c. (k, raw) \<in> set cs \<and> ParseBytes env raw = Inr c \<and> cookie_Value c = v \<and>
           (cookie_Expire c = CookieExpireUnlimited env \<or> t \<le> cookie_Expire c)"
proof -
  from VisitAllCookie_entry [OF entry] obtain raw c j where
    m: "(k, raw) \<in> set cs" and p: "ParseBytes env raw = Inr c" and v: "cookie_Value c = v"
    and e: "cookie_Expire c = CookieExpireUnlimited env \<or>
            (j < length cs \<and> \<not> cookie_Expire c < Now env j)"
    by (auto simp: fresh_loader_def)
  from e clock have "cookie_Expire c = CookieExpireUnlimited env \<or> t \<le> cookie_Expire c"
    by force
  with m p v show ?thesis by blast
qed

lemma singleRequestJob_unlimited:
  assumes "getHTTPJobConfigs env args g = Inr (jc, cc, tpl)" and "Execute env tpl 0 = Inr rc"
    and "(k, raw) \<in> set (resp_Cookies (snd (snd (Do env 0 (snd (InitRequest env rc (AcquireRequest env)))))))"
    and "ParseBytes env raw = Inr c" and "cookie_Expire c = CookieExpireUnlimited env"
  shows "\<exists>res. snd (singleRequestJob env g args) = (Some res, None) \<and>
           cookies (response res) k \<noteq> None"
  using VisitAllCookie_unlimited [OF assms(3-5), of fresh_loader]
  by (simp add: singleRequestJob_ok [OF assms(1,2)])

section \<open>The claims\<close>





text \<open>
  Claim C3. When the request template fails at iteration \<open>k\<close>, after \<open>k\<close> iterations that
  passed \<open>Next\<close> and the template, the job returns, with any fuel beyond \<open>k\<close>, the
  template error wrapped in \<open>error executing request template\<close>. Its events are those of
  the \<open>k\<close> iterations before: nothing is sent for the failing iteration and the transport
  has been called \<open>k\<close> times.
\<close>

theorem template_failure_ends_the_job:
  assumes "getHTTPJobConfigs env args g = Inr (jc, cc, tpl)"
    and "\<forall>i < k. Next env i \<and> (\<exists>rc. Execute env tpl i = Inr rc)"
    and "Next env k" and "Execute env tpl k = Inl e"
  shows "snd (fastHTTPJob env (Suc (k + d)) g args) =
           Some (None, Some (Wrapf ''error executing request template'' e)) \<and>
         fst (fastHTTPJob env (Suc (k + d)) g args) = fst (fastHTTPJob env k g args) \<and>
         length (outcomes (fst (fastHTTPJob env (Suc (k + d)) g args))) = k"
proof -
  have run: "\<forall>j < k. Next env (0 + j) \<and> (\<exists>rc. Execute env tpl (0 + j) = Inr rc)"
    using assms(2) by simp
  have stop: "fastHTTPJob_loop env args tpl (Suc (k + d)) 0 req b =
           (fst (fastHTTPJob_loop env args tpl k 0 req b),
            Some (None, Some (Wrapf ''error executing request template'' e)))" for req b
    using loop_aborts [OF run, of e args d req b] assms(3,4) by simp
  have len: "length (sizes (fst (fastHTTPJob_loop env args tpl k 0 req b))) = k" for req b
    using loop_running [OF run, of args req b] by simp
  have eq: "length (outcomes (fst (fastHTTPJob_loop env args tpl k 0 req b))) = k" for req b
    using loop_totals [of env args tpl k 0 req b] len [of req b] by simp
  show ?thesis
    by (simp add: fastHTTPJob_ok [OF assms(1)] stop outcomes_append started_facts eq)
qed

theorem template_failure_ends_the_job_witness:
  "getHTTPJobConfigs (sample_env False 5 (Some 1) (\<lambda>i. None)) sample_args sample_global =
     Inr (\<lparr>BackoffConfig = None, Request = sample_args, Client = []\<rparr>,
          \<lparr>client_ProxyURLs = [], client_settings = []\<rparr>, ''/x'') \<and>
   Next (sample_env False 5 (Some 1) (\<lambda>i. None)) 0 \<and>
   Execute (sample_env False 5 (Some 1) (\<lambda>i. None)) ''/x'' 0 = Inr ''/x'' \<and>
   Next (sample_env False 5 (Some 1) (\<lambda>i. None)) 1 \<and>
   Execute (sample_env False 5 (Some 1) (\<lambda>i. None)) ''/x'' 1 = Inl (Err ''bad template'') \<and>
   snd (fastHTTPJob (sample_env False 5 (Some 1) (\<lambda>i. None)) (Suc (1 + 2)) sample_global sample_args) =
     Some (None, Some (Wrapf ''error executing request template'' (Err ''bad template''))) \<and>
   length (outcomes (fst (fastHTTPJob (sample_env False 5 (Some 1) (\<lambda>i. None)) (Suc (1 + 2))
                            sample_global sample_args))) = 1"
proof -
  have hyps:
    "getHTTPJobConfigs (sample_env False 5 (Some 1) (\<lambda>i. None)) sample_args sample_global =
       Inr (\<lparr>BackoffConfig = None, Request = sample_args, Client = []\<rparr>,
            \<lparr>client_ProxyURLs = [], client_settings = []\<rparr>, ''/x'') \<and>
     Next (sample_env False 5 (Some 1) (\<lambda>i. None)) 0 \<and>
     Execute (sample_env False 5 (Some 1) (\<lambda>i. None)) ''/x'' 0 = Inr ''/x'' \<and>
     Next (sample_env False 5 (Some 1) (\<lambda>i. None)) 1 \<and>
     Execute (sample_env False 5 (Some 1) (\<lambda>i. None)) ''/x'' 1 = Inl (Err ''bad template'')"
    by (simp add: sample_env_fields sample_configs sample_path)
  have "\<forall>i < 1. Next (sample_env False 5 (Some 1) (\<lambda>i. None)) i \<and>
          (\<exists>rc. Execute (sample_env False 5 (Some 1) (\<lambda>i. None)) ''/x'' i = Inr rc)"
    by (simp add: sample_env_fields)
  from template_failure_ends_the_job [of _ sample_args sample_global _ _ "''/x''" 1 _ 2, OF _ this]
    hyps
  show ?thesis by blast
qed

text \<open>
  Claim C4. An error returned by \<open>fastHTTPJob\<close> is an error of \<open>ParseConfig\<close>, of decoding
  the client configuration, of parsing the request template or of executing it, each
  wrapped with its prefix, and the data is nil; a transport error is never returned. When
  \<open>Next\<close> denies iteration \<open>k\<close>, the job returns \<open>(nil, nil)\<close> with any fuel beyond
  \<open>k\<close>, whatever the transport calls returned.
\<close>

theorem only_configuration_errors_are_returned:
  "(snd (fastHTTPJob env fuel g args) = Some (data, Some err) \<longrightarrow>
      data = None \<and>
      ((\<exists>e. ParseConfig env args g = Inl e \<and> err = Wrapf ''error parsing job config'' e) \<or>
       (\<exists>jc e. ParseConfig env args g = Inr jc \<and> DecodeClient env (Client jc) = Inl e \<and>
                err = Wrapf ''error parsing client config'' e) \<or>
       (\<exists>jc e. ParseConfig env args g = Inr jc \<and> ParseMapStruct env (Request jc) = Inl e \<and>
                err = Wrapf ''error parsing request config'' e) \<or>
       (\<exists>jc cc tpl j e. getHTTPJobConfigs env args g = Inr (jc, cc, tpl) \<and> Next env j \<and>
                Execute env tpl j = Inl e \<and>
                err = Wrapf ''error executing request template'' e))) \<and>
   (getHTTPJobConfigs env' args' g' = Inr (jc', cc', tpl') \<and>
    (\<forall>i < k. Next env' i \<and> (\<exists>rc. Execute env' tpl' i = Inr rc)) \<and> \<not> Next env' k \<longrightarrow>
      snd (fastHTTPJob env' (Suc (k + d)) g' args') = Some (None, None))"
proof (rule conjI; rule impI)
  assume ret: "snd (fastHTTPJob env fuel g args) = Some (data, Some err)"
  note e = fastHTTPJob_error [OF ret]
  from e have d: "data = None" ..
  from e have "getHTTPJobConfigs env args g = Inl err \<or>
          (\<exists>jc cc tpl j e. getHTTPJobConfigs env args g = Inr (jc, cc, tpl) \<and> Next env j \<and>
                Execute env tpl j = Inl e \<and>
                err = Wrapf ''error executing request template'' e)" ..
  then have "(\<exists>e. ParseConfig env args g = Inl e \<and> err = Wrapf ''error parsing job config'' e) \<or>
       (\<exists>jc e. ParseConfig env args g = Inr jc \<and> DecodeClient env (Client jc) = Inl e \<and>
                err = Wrapf ''error parsing client config'' e) \<or>
       (\<exists>jc e. ParseConfig env args g = Inr jc \<and> ParseMapStruct env (Request jc) = Inl e \<and>
                err = Wrapf ''error parsing request config'' e) \<or>
       (\<exists>jc cc tpl j e. getHTTPJobConfigs env args g = Inr (jc, cc, tpl) \<and> Next env j \<and>
                Execute env tpl j = Inl e \<and>
                err = Wrapf ''error executing request template'' e)"
  proof
    assume "getHTTPJobConfigs env args g = Inl err"
    from getHTTPJobConfigs_error [OF this] show ?thesis
      by (elim disjE) (erule disjI1, (rule disjI2, erule disjI1), (rule disjI2, rule disjI2, erule disjI1))
  next
    assume "\<exists>jc cc tpl j e. getHTTPJobConfigs env args g = Inr (jc, cc, tpl) \<and> Next env j \<and>
                Execute env tpl j = Inl e \<and>
                err = Wrapf ''error executing request template'' e"
    then show ?thesis by (intro disjI2)
  qed
  with d show "data = None \<and>
      ((\<exists>e. ParseConfig env args g = Inl e \<and> err = Wrapf ''error parsing job config'' e) \<or>
       (\<exists>jc e. ParseConfig env args g = Inr jc \<and> DecodeClient env (Client jc) = Inl e \<and>
                err = Wrapf ''error parsing client config'' e) \<or>
       (\<exists>jc e. ParseConfig env args g = Inr jc \<and> ParseMapStruct env (Request jc) = Inl e \<and>
                err = Wrapf ''error parsing request config'' e) \<or>
       (\<exists>jc cc tpl j e. getHTTPJobConfigs env args g = Inr (jc, cc, tpl) \<and> Next env j \<and>
                Execute env tpl j = Inl e \<and>
                err = Wrapf ''error executing request template'' e))" ..
next
  assume a: "getHTTPJobConfigs env' args' g' = Inr (jc', cc', tpl') \<and>
    (\<forall>i < k. Next env' i \<and> (\<exists>rc. Execute env' tpl' i = Inr rc)) \<and> \<not> Next env' k"
  from a have cfg: "getHTTPJobConfigs env' args' g' = Inr (jc', cc', tpl')" ..
  from a have run: "\<forall>j < k. Next env' (0 + j) \<and> (\<exists>rc. Execute env' tpl' (0 + j) = Inr rc)"
    by simp
  from a have stop: "\<not> Next env' (0 + k)" by simp
  show "snd (fastHTTPJob env' (Suc (k + d)) g' args') = Some (None, None)"
    by (simp add: fastHTTPJob_ok [OF cfg] loop_stops [OF run stop])
qed

theorem only_configuration_errors_are_returned_witness:
  "snd (fastHTTPJob (sample_env False 5 (Some 1) (\<lambda>i. None)) (Suc (Suc 0)) sample_global sample_args) =
     Some (None, Some (Wrapf ''error executing request template'' (Err ''bad template''))) \<and>
   getHTTPJobConfigs (sample_env False 1 None (\<lambda>i. Some (Err ''timeout''))) sample_args sample_global =
     Inr (\<lparr>BackoffConfig = None, Request = sample_args, Client = []\<rparr>,
          \<lparr>client_ProxyURLs = [], client_settings = []\<rparr>, ''/x'') \<and>
   Next (sample_env False 1 None (\<lambda>i. Some (Err ''timeout''))) 0 \<and>
   Execute (sample_env False 1 None (\<lambda>i. Some (Err ''timeout''))) ''/x'' 0 = Inr ''/x'' \<and>
   \<not> Next (sample_env False 1 None (\<lambda>i. Some (Err ''timeout''))) 1 \<and>
   send_errors (fst (fastHTTPJob (sample_env False 1 None (\<lambda>i. Some (Err ''timeout''))) (Suc (1 + 0))
                       sample_global sample_args)) = [Err ''timeout''] \<and>
   snd (fastHTTPJob (sample_env False 1 None (\<lambda>i. Some (Err ''timeout''))) (Suc (1 + 0))
          sample_global sample_args) = Some (None, None)"
proof -
  have ret:
    "snd (fastHTTPJob (sample_env False 5 (Some 1) (\<lambda>i. None)) (Suc (Suc 0)) sample_global sample_args) =
       Some (None, Some (Wrapf ''error executing request template'' (Err ''bad template'')))"
    by (simp add: sample_run)
  have cfg:
    "getHTTPJobConfigs (sample_env False 1 None (\<lambda>i. Some (Err ''timeout''))) sample_args sample_global =
       Inr (\<lparr>BackoffConfig = None, Request = sample_args, Client = []\<rparr>,
            \<lparr>client_ProxyURLs = [], client_settings = []\<rparr>, ''/x'')"
    by (simp add: sample_configs sample_path)
  have gate:
    "Next (sample_env False 1 None (\<lambda>i. Some (Err ''timeout''))) 0 \<and>
     Execute (sample_env False 1 None (\<lambda>i. Some (Err ''timeout''))) ''/x'' 0 = Inr ''/x'' \<and>
     \<not> Next (sample_env False 1 None (\<lambda>i. Some (Err ''timeout''))) 1"
    by (simp add: sample_env_fields)
  have failed:
    "send_errors (fst (fastHTTPJob (sample_env False 1 None (\<lambda>i. Some (Err ''timeout''))) (Suc (1 + 0))
                       sample_global sample_args)) = [Err ''timeout'']"
    by (simp add: sample_run send_errors_def)
  have run: "\<forall>i < 1. Next (sample_env False 1 None (\<lambda>i. Some (Err ''timeout''))) i \<and>
          (\<exists>rc. Execute (sample_env False 1 None (\<lambda>i. Some (Err ''timeout''))) ''/x'' i = Inr rc)"
    by (simp add: sample_env_fields)
  note t = only_configuration_errors_are_returned
         [of "sample_env False 5 (Some 1) (\<lambda>i. None)" "Suc (Suc 0)" sample_global sample_args
             None "Wrapf ''error executing request template'' (Err ''bad template'')"
             "sample_env False 1 None (\<lambda>i. Some (Err ''timeout''))" sample_args sample_global
             "\<lparr>BackoffConfig = None, Request = sample_args, Client = []\<rparr>"
             "\<lparr>client_ProxyURLs = [], client_settings = []\<rparr>" "''/x''" 1 0]
  from gate have stop: "\<not> Next (sample_env False 1 None (\<lambda>i. Some (Err ''timeout''))) 1"
    by simp
  have "snd (fastHTTPJob (sample_env False 1 None (\<lambda>i. Some (Err ''timeout''))) (Suc (1 + 0))
          sample_global sample_args) = Some (None, None)"
    by (rule t [THEN conjunct2, THEN mp]) (intro conjI cfg run stop)
  with ret cfg gate failed show ?thesis by simp
qed

text \<open>
  Claim C5, as the code has it. In the privileged mode (\<open>isInEncryptedContext\<close> true)
  neither job writes a line with \<open>log.Printf\<close>, so the two lines that print the request
  path are withheld. In every mode the loop hands the injected logger one Debug record
  for each failed send and nothing else, and that record carries the transport error and
  the whole of the job's args, not the method and host alone. The single request job
  hands the logger only the record of an expired cookie.
\<close>

theorem logs_of_the_jobs:
  "(isInEncryptedContext env \<longrightarrow>
      printf_lines (fst (fastHTTPJob env fuel g args)) = [] \<and>
      printf_lines (fst (singleRequestJob env g args)) = []) \<and>
   debug_records (fst (fastHTTPJob env fuel g args)) =
     map (\<lambda>err. (''error sending request'', [ZapError err, ZapAny ''args'' args]))
       (send_errors (fst (fastHTTPJob env fuel g args))) \<and>
   set (map fst (debug_records (fst (singleRequestJob env g args)))) \<subseteq>
     {''cookie from the request expired''}"
  using fastHTTPJob_logs [of env fuel g args] singleRequestJob_logs [of env g args]
  by simp

theorem logs_of_the_jobs_witness:
  "isInEncryptedContext (sample_env True 1 None timeouts) \<and>
   printf_lines (fst (fastHTTPJob (sample_env True 1 None timeouts) (Suc (Suc 0)) sample_global
                        sample_args)) = [] \<and>
   printf_lines (fst (singleRequestJob (sample_env True 1 None timeouts) sample_global sample_args)) = [] \<and>
   send_errors (fst (fastHTTPJob (sample_env True 1 None timeouts) (Suc (Suc 0)) sample_global
                       sample_args)) = [Err ''timeout''] \<and>
   debug_records (fst (fastHTTPJob (sample_env True 1 None timeouts) (Suc (Suc 0)) sample_global
                         sample_args)) =
     [(''error sending request'', [ZapError (Err ''timeout''), ZapAny ''args'' sample_args])]"
proof -
  let ?E = "sample_env True 1 None timeouts"
  note t = logs_of_the_jobs [of ?E "Suc (Suc 0)" sample_global sample_args]
  have enc: "isInEncryptedContext ?E" by (simp add: sample_env_fields)
  from t [THEN conjunct1, THEN mp, OF enc]
  have p: "printf_lines (fst (fastHTTPJob ?E (Suc (Suc 0)) sample_global sample_args)) = []"
    and q: "printf_lines (fst (singleRequestJob ?E sample_global sample_args)) = []"
    by simp_all
  have e: "send_errors (fst (fastHTTPJob ?E (Suc (Suc 0)) sample_global sample_args)) = [Err ''timeout'']"
    by (simp add: sample_run send_errors_def timeouts_def)
  have d: "debug_records (fst (fastHTTPJob ?E (Suc (Suc 0)) sample_global sample_args)) =
     [(''error sending request'', [ZapError (Err ''timeout''), ZapAny ''args'' sample_args])]"
    using t [THEN conjunct2, THEN conjunct1] unfolding e by simp
  show ?thesis by (intro conjI enc p q e d)
qed

text \<open>
  Claim C5 as it was stated does not hold. In the privileged mode a failed send hands the
  logger a record that carries the job's args, the request path among them; in the other
  mode the record is the same, so a failure is not logged with the method and host alone.
\<close>

theorem logs_of_the_jobs_counterexample:
  "isInEncryptedContext (sample_env True 1 None timeouts) \<and>
   fst (fastHTTPJob (sample_env True 1 None timeouts) (Suc (Suc 0)) sample_global
          [(''path'', ''/x'')]) =
     [NewClient \<lparr>client_ProxyURLs = [], client_settings = []\<rparr>,
      StartWriter Traffic, StartWriter ProcessedTraffic,
      Initialised 2, WriterAdd Traffic 2,
      ClientDo ''/x'' (Some (Err ''timeout'')), IncHTTP ''/x'' ''GET'' StatusFail,
      LoggerDebug ''error sending request''
        [ZapError (Err ''timeout''), ZapAny ''args'' [(''path'', ''/x'')]],
      BackoffIncrement, Sleep 100] \<and>
   \<not> isInEncryptedContext (sample_env False 1 None timeouts) \<and>
   fst (fastHTTPJob (sample_env False 1 None timeouts) (Suc (Suc 0)) sample_global
          [(''path'', ''/x'')]) =
     [NewClient \<lparr>client_ProxyURLs = [], client_settings = []\<rparr>,
      StartWriter Traffic, StartWriter ProcessedTraffic,
      LogPrintf ''Attacking /x'',
      Initialised 2, WriterAdd Traffic 2,
      ClientDo ''/x'' (Some (Err ''timeout'')), IncHTTP ''/x'' ''GET'' StatusFail,
      LoggerDebug ''error sending request''
        [ZapError (Err ''timeout''), ZapAny ''args'' [(''path'', ''/x'')]],
      BackoffIncrement, Sleep 100]"
  by (simp add: fastHTTPJob_ok [OF sample_configs] started_def first_backoff_def
      fastHTTPJob_loop.simps fastHTTPJob_body_def sendFastHTTPRequest_def sample_env_fields
      sample_global_fields fmt_v_def uint64_def timeouts_def)



text \<open>
  Claim C7. When the configuration and the request template evaluate, \<open>singleRequestJob\<close>
  returns a nil error and a result that holds the error of the transport call, nil or
  not, next to the snapshot of the response: body, status code, headers and cookies.
\<close>

theorem single_shot_embeds_the_transport_error:
  assumes "getHTTPJobConfigs env args g = Inr (jc, cc, tpl)"
    and "Execute env tpl 0 = Inr rc"
    and "req = snd (InitRequest env rc (AcquireRequest env))"
    and "resp = snd (snd (Do env 0 req))"
  shows "snd (singleRequestJob env g args) =
     (Some \<lparr>response =
              \<lparr>body = resp_Body resp,
               status_code = resp_StatusCode resp,
               headers = VisitAll (resp_Header resp) Map.empty,
               cookies = ld_cookies (VisitAllCookie env (resp_Cookies resp) fresh_loader)\<rparr>,
            result_error = fst (Do env 0 req)\<rparr>,
      None)"
  unfolding assms(3,4) by (rule singleRequestJob_ok [OF assms(1,2)])

theorem single_shot_embeds_the_transport_error_witness:
  "getHTTPJobConfigs (sample_env True 5 None (\<lambda>i. Some (Err ''timeout''))) sample_args sample_global =
     Inr (\<lparr>BackoffConfig = None, Request = sample_args, Client = []\<rparr>,
          \<lparr>client_ProxyURLs = [], client_settings = []\<rparr>, ''/x'') \<and>
   Execute (sample_env True 5 None (\<lambda>i. Some (Err ''timeout''))) ''/x'' 0 = Inr ''/x'' \<and>
   snd (singleRequestJob (sample_env True 5 None (\<lambda>i. Some (Err ''timeout''))) sample_global sample_args) =
     (Some \<lparr>response =
              \<lparr>body = ''ok'', status_code = 200,
               headers = VisitAll [(''A'', ''1''), (''B'', ''2''), (''A'', ''3'')] Map.empty,
               cookies = [''s'' \<mapsto> ''1'', ''v'' \<mapsto> ''3'']\<rparr>,
            result_error = Some (Err ''timeout'')\<rparr>,
      None)"
proof -
  let ?E = "sample_env True 5 None (\<lambda>i. Some (Err ''timeout''))"
  have rc: "Execute ?E ''/x'' 0 = Inr ''/x''" by (simp add: sample_env_fields)
  from single_shot_embeds_the_transport_error [OF sample_single_configs rc refl refl]
  have "snd (singleRequestJob ?E sample_global sample_args) =
     (Some \<lparr>response =
              \<lparr>body = ''ok'', status_code = 200,
               headers = VisitAll [(''A'', ''1''), (''B'', ''2''), (''A'', ''3'')] Map.empty,
               cookies = [''s'' \<mapsto> ''1'', ''v'' \<mapsto> ''3'']\<rparr>,
            result_error = Some (Err ''timeout'')\<rparr>,
      None)"
    by (simp add: sample_env_fields(11,12) sample_response_fields sample_loaded)
  with sample_single_configs rc show ?thesis by simp
qed

text \<open>
  Claim C8. The body and the status code of the snapshot are those of the raw response and
  its header map holds, for each name, the value the response gives it last. With \<open>t\<close> a
  time no later than any reading of the clock while the snapshot is built, every entry of
  the cookie map is the value of a response cookie of that name that parsed and that has
  no expiry or an expiry not earlier than \<open>t\<close>; a name all of whose cookies that parse have
  an expiry earlier than \<open>t\<close> is absent from the map. A cookie whose \<open>Expire()\<close> is
  \<open>CookieExpireUnlimited\<close> has no expiry.
\<close>

theorem snapshot_matches_the_response:
  assumes "getHTTPJobConfigs env args g = Inr (jc, cc, tpl)"
    and "Execute env tpl 0 = Inr rc"
    and "resp = snd (snd (Do env 0 (snd (InitRequest env rc (AcquireRequest env)))))"
    and "\<forall>j < length (resp_Cookies resp). t \<le> Now env j"
  shows "\<exists>res. fst (snd (singleRequestJob env g args)) = Some res \<and>
     body (response res) = resp_Body resp \<and>
     status_code (response res) = resp_StatusCode resp \<and>
     headers (response res) = map_of (rev (resp_Header resp)) \<and>
     (\<forall>k v. cookies (response res) k = Some v \<longrightarrow>
        (\<exists>raw c. (k, raw) \<in> set (resp_Cookies resp) \<and> ParseBytes env raw = Inr c \<and>
           cookie_Value c = v \<and>
           (cookie_Expire c = CookieExpireUnlimited env \<or> t \<le> cookie_Expire c))) \<and>
     (\<forall>k. (\<forall>raw c. (k, raw) \<in> set (resp_Cookies resp) \<and> ParseBytes env raw = Inr c \<longrightarrow>
              cookie_Expire c \<noteq> CookieExpireUnlimited env \<and> cookie_Expire c < t) \<longrightarrow>
          cookies (response res) k = None)"
proof -
  let ?cs = "resp_Cookies resp"
  let ?m = "ld_cookies (VisitAllCookie env ?cs fresh_loader)"
  let ?res = "\<lparr>response =
              \<lparr>body = resp_Body resp,
               status_code = resp_StatusCode resp,
               headers = VisitAll (resp_Header resp) Map.empty,
               cookies = ?m\<rparr>,
            result_error = fst (Do env 0 (snd (InitRequest env rc (AcquireRequest env))))\<rparr>"
  have ret: "fst (snd (singleRequestJob env g args)) = Some ?res"
    by (simp add: singleRequestJob_ok [OF assms(1,2)] assms(3))
  have hs: "headers (response ?res) = map_of (rev (resp_Header resp))"
    by (simp add: VisitAll_map_of)
  have origin: "\<exists>raw c. (k, raw) \<in> set ?cs \<and> ParseBytes env raw = Inr c \<and> cookie_Value c = v \<and>
           (cookie_Expire c = CookieExpireUnlimited env \<or> t \<le> cookie_Expire c)"
    if "?m k = Some v" for k v
    using snapshot_cookie_origin [OF assms(4) that] .
  have absent: "?m k = None"
    if all: "\<forall>raw c. (k, raw) \<in> set ?cs \<and> ParseBytes env raw = Inr c \<longrightarrow>
              cookie_Expire c \<noteq> CookieExpireUnlimited env \<and> cookie_Expire c < t" for k
  proof (rule ccontr)
    assume "?m k \<noteq> None"
    then obtain v where "?m k = Some v" by auto
    from origin [OF this] obtain raw c where
      "(k, raw) \<in> set ?cs" "ParseBytes env raw = Inr c"
      "cookie_Expire c = CookieExpireUnlimited env \<or> t \<le> cookie_Expire c"
      by blast
    with all show False by force
  qed
  have "body (response ?res) = resp_Body resp \<and>
     status_code (response ?res) = resp_StatusCode resp \<and>
     headers (response ?res) = map_of (rev (resp_Header resp)) \<and>
     (\<forall>k v. cookies (response ?res) k = Some v \<longrightarrow>
        (\<exists>raw c. (k, raw) \<in> set ?cs \<and> ParseBytes env raw = Inr c \<and>
           cookie_Value c = v \<and>
           (cookie_Expire c = CookieExpireUnlimited env \<or> t \<le> cookie_Expire c))) \<and>
     (\<forall>k. (\<forall>raw c. (k, raw) \<in> set ?cs \<and> ParseBytes env raw = Inr c \<longrightarrow>
              cookie_Expire c \<noteq> CookieExpireUnlimited env \<and> cookie_Expire c < t) \<longrightarrow>
          cookies (response ?res) k = None)"
    using hs origin absent by simp
  with ret show ?thesis by (intro exI [of _ ?res] conjI) simp_all
qed

theorem snapshot_matches_the_response_witness:
  "getHTTPJobConfigs (sample_env True 5 None (\<lambda>i. None)) sample_args sample_global =
     Inr (\<lparr>BackoffConfig = None, Request = sample_args, Client = []\<rparr>,
          \<lparr>client_ProxyURLs = [], client_settings = []\<rparr>, ''/x'') \<and>
   Execute (sample_env True 5 None (\<lambda>i. None)) ''/x'' 0 = Inr ''/x'' \<and>
   1000 \<le> Now (sample_env True 5 None (\<lambda>i. None)) 0 \<and>
   (\<exists>res. fst (snd (singleRequestJob (sample_env True 5 None (\<lambda>i. None)) sample_global sample_args)) =
            Some res \<and>
      body (response res) = ''ok'' \<and> status_code (response res) = 200 \<and>
      headers (response res) ''A'' = Some ''3'' \<and> headers (response res) ''B'' = Some ''2'' \<and>
      cookies (response res) ''s'' = Some ''1'' \<and> cookies (response res) ''t'' = None)"
proof -
  let ?E = "sample_env True 5 None (\<lambda>i. None)"
  let ?resp = "snd (snd (Do ?E 0 (snd (InitRequest ?E ''/x'' (AcquireRequest ?E)))))"
  have rc: "Execute ?E ''/x'' 0 = Inr ''/x''" by (simp add: sample_env_fields)
  have resp: "?resp = sample_response" by (simp add: sample_env_fields)
  have clock: "\<forall>j < length (resp_Cookies ?resp). 1000 \<le> Now ?E j"
    by (simp add: sample_env_fields)
  have now: "1000 \<le> Now ?E 0" by (simp add: sample_env_fields)
  from snapshot_matches_the_response [OF sample_single_configs rc refl clock]
  obtain res where r:
    "fst (snd (singleRequestJob ?E sample_global sample_args)) = Some res \<and>
     body (response res) = resp_Body ?resp \<and>
     status_code (response res) = resp_StatusCode ?resp \<and>
     headers (response res) = map_of (rev (resp_Header ?resp)) \<and>
     (\<forall>k v. cookies (response res) k = Some v \<longrightarrow>
        (\<exists>raw c. (k, raw) \<in> set (resp_Cookies ?resp) \<and> ParseBytes ?E raw = Inr c \<and>
           cookie_Value c = v \<and>
           (cookie_Expire c = CookieExpireUnlimited ?E \<or> 1000 \<le> cookie_Expire c))) \<and>
     (\<forall>k. (\<forall>raw c. (k, raw) \<in> set (resp_Cookies ?resp) \<and> ParseBytes ?E raw = Inr c \<longrightarrow>
              cookie_Expire c \<noteq> CookieExpireUnlimited ?E \<and> cookie_Expire c < 1000) \<longrightarrow>
          cookies (response res) k = None)" ..
  note ret = r [THEN conjunct1]
  note b = r [THEN conjunct2, THEN conjunct1]
  note s = r [THEN conjunct2, THEN conjunct2, THEN conjunct1]
  note h = r [THEN conjunct2, THEN conjunct2, THEN conjunct2, THEN conjunct1]
  note gone = r [THEN conjunct2, THEN conjunct2, THEN conjunct2, THEN conjunct2, THEN conjunct2,
                 THEN spec, of "''t''"]
  have old: "\<forall>raw c. (''t'', raw) \<in> set (resp_Cookies ?resp) \<and> ParseBytes ?E raw = Inr c \<longrightarrow>
              cookie_Expire c \<noteq> CookieExpireUnlimited ?E \<and> cookie_Expire c < 1000"
    unfolding resp sample_response_fields
    by (simp add: sample_parse sample_env_fields(16))
  from gone [THEN mp, OF old] have t: "cookies (response res) ''t'' = None" .
  have res: "res = \<lparr>response =
              \<lparr>body = ''ok'', status_code = 200,
               headers = VisitAll [(''A'', ''1''), (''B'', ''2''), (''A'', ''3'')] Map.empty,
               cookies = [''s'' \<mapsto> ''1'', ''v'' \<mapsto> ''3'']\<rparr>,
            result_error = None\<rparr>"
    using ret
    by (simp add: singleRequestJob_ok [OF sample_single_configs rc] sample_env_fields(11,12)
        sample_response_fields sample_loaded)
  have c: "cookies (response res) ''s'' = Some ''1''"
    unfolding res by simp
  have b': "body (response res) = ''ok''"
    using b by (simp only: resp sample_response_fields)
  have s': "status_code (response res) = 200"
    using s by (simp only: resp sample_response_fields)
  have h': "headers (response res) = map_of [(''A'', ''3''), (''B'', ''2''), (''A'', ''1'')]"
    using h by (simp add: resp sample_response_fields)
  have hA: "headers (response res) ''A'' = Some ''3''" unfolding h' by simp
  have hB: "headers (response res) ''B'' = Some ''2''" unfolding h' by simp
  have "\<exists>res. fst (snd (singleRequestJob ?E sample_global sample_args)) = Some res \<and>
      body (response res) = ''ok'' \<and> status_code (response res) = 200 \<and>
      headers (response res) ''A'' = Some ''3'' \<and> headers (response res) ''B'' = Some ''2'' \<and>
      cookies (response res) ''s'' = Some ''1'' \<and> cookies (response res) ''t'' = None"
    by (rule exI [of _ res]) (intro conjI ret b' s' hA hB c t)
  with sample_single_configs [of True 5 None "\<lambda>i. None"] rc now show ?thesis by (intro conjI)
qed

text \<open>
  Claim C9. \<open>sendFastHTTPRequest\<close> calls \<open>client.Do\<close> once and then increments one outcome
  counter, keyed by the host and the method of the request as the client left it: the
  fail counter when \<open>client.Do\<close> returned an error, the success counter when it returned
  nil. It returns what \<open>client.Do\<close> returned.
\<close>

theorem one_outcome_counter_per_exchange:
  "fst (sendFastHTTPRequest env i req) =
     [ClientDo req (fst (Do env i req)),
      IncHTTP (Host env (fst (snd (Do env i req)))) (Method env (fst (snd (Do env i req))))
        (if fst (Do env i req) = None then StatusSuccess else StatusFail)] \<and>
   fst (snd (sendFastHTTPRequest env i req)) = fst (Do env i req)"
  by (simp add: sendFastHTTPRequest_def split_beta split: option.splits)

theorem one_outcome_counter_per_exchange_witness:
  "fst (sendFastHTTPRequest (sample_env True 5 None (\<lambda>i. if i = 0 then Some (Err ''timeout'') else None))
          0 ''/x'') =
     [ClientDo ''/x'' (Some (Err ''timeout'')), IncHTTP ''/x'' ''GET'' StatusFail] \<and>
   fst (snd (sendFastHTTPRequest (sample_env True 5 None (\<lambda>i. if i = 0 then Some (Err ''timeout'') else None))
          0 ''/x'')) = Some (Err ''timeout'') \<and>
   fst (sendFastHTTPRequest (sample_env True 5 None (\<lambda>i. if i = 0 then Some (Err ''timeout'') else None))
          1 ''/x'') =
     [ClientDo ''/x'' None, IncHTTP ''/x'' ''GET'' StatusSuccess] \<and>
   fst (snd (sendFastHTTPRequest (sample_env True 5 None (\<lambda>i. if i = 0 then Some (Err ''timeout'') else None))
          1 ''/x'')) = None"
  using one_outcome_counter_per_exchange
          [of "sample_env True 5 None (\<lambda>i. if i = 0 then Some (Err ''timeout'') else None)" 0 "''/x''"]
        one_outcome_counter_per_exchange
          [of "sample_env True 5 None (\<lambda>i. if i = 0 then Some (Err ''timeout'') else None)" 1 "''/x''"]
  by (simp add: sample_env_fields)

text \<open>
  Claim C10. On a cookie whose value does not parse, the cookie visitor changes nothing: the
  map, the clock and the log stay as they were, and it has no error to report, so
  \<open>singleRequestJob\<close> returns its result with a nil error whatever the cookies are. On a
  cookie whose expiry is \<open>CookieExpireUnlimited\<close> the visitor stores the value under the
  cookie's name, and the name is in the cookie map of the snapshot.
\<close>

theorem unparseable_and_unlimited_cookies:
  "(ParseBytes env val = Inl e \<longrightarrow> cookieLoaderFunc env st key val = st) \<and>
   (ParseBytes env val' = Inr c \<and> cookie_Expire c = CookieExpireUnlimited env \<longrightarrow>
      ld_cookies (cookieLoaderFunc env st' key' val') key' = Some (cookie_Value c)) \<and>
   (getHTTPJobConfigs env args g = Inr (jc, cc, tpl) \<and> Execute env tpl 0 = Inr rc \<longrightarrow>
      (\<exists>res. snd (singleRequestJob env g args) = (Some res, None))) \<and>
   (getHTTPJobConfigs env args g = Inr (jc, cc, tpl) \<and> Execute env tpl 0 = Inr rc \<and>
    (k, raw) \<in> set (resp_Cookies (snd (snd (Do env 0 (snd (InitRequest env rc (AcquireRequest env))))))) \<and>
    ParseBytes env raw = Inr c' \<and> cookie_Expire c' = CookieExpireUnlimited env \<longrightarrow>
      (\<exists>res. snd (singleRequestJob env g args) = (Some res, None) \<and>
             cookies (response res) k \<noteq> None))"
proof (intro conjI impI)
  assume "ParseBytes env val = Inl e"
  then show "cookieLoaderFunc env st key val = st" by (rule cookieLoaderFunc_unparseable)
next
  assume "ParseBytes env val' = Inr c \<and> cookie_Expire c = CookieExpireUnlimited env"
  then show "ld_cookies (cookieLoaderFunc env st' key' val') key' = Some (cookie_Value c)"
    by (simp add: cookieLoaderFunc_unlimited)
next
  assume "getHTTPJobConfigs env args g = Inr (jc, cc, tpl) \<and> Execute env tpl 0 = Inr rc"
  then show "\<exists>res. snd (singleRequestJob env g args) = (Some res, None)"
    by (simp add: singleRequestJob_ok)
next
  assume "getHTTPJobConfigs env args g = Inr (jc, cc, tpl) \<and> Execute env tpl 0 = Inr rc \<and>
    (k, raw) \<in> set (resp_Cookies (snd (snd (Do env 0 (snd (InitRequest env rc (AcquireRequest env))))))) \<and>
    ParseBytes env raw = Inr c' \<and> cookie_Expire c' = CookieExpireUnlimited env"
  then show "\<exists>res. snd (singleRequestJob env g args) = (Some res, None) \<and>
             cookies (response res) k \<noteq> None"
    using singleRequestJob_unlimited [of env args g jc cc tpl rc k raw c'] by simp
qed

theorem unparseable_and_unlimited_cookies_witness:
  "ParseBytes (sample_env True 5 None (\<lambda>i. None)) ''bad'' = Inl (Err ''malformed'') \<and>
   cookieLoaderFunc (sample_env True 5 None (\<lambda>i. None)) fresh_loader ''u'' ''bad'' = fresh_loader \<and>
   ParseBytes (sample_env True 5 None (\<lambda>i. None)) ''any'' =
     Inr \<lparr>cookie_Value = ''3'', cookie_Expire = 0\<rparr> \<and>
   CookieExpireUnlimited (sample_env True 5 None (\<lambda>i. None)) = 0 \<and>
   ld_cookies (cookieLoaderFunc (sample_env True 5 None (\<lambda>i. None)) fresh_loader ''v'' ''any'') ''v'' =
     Some ''3'' \<and>
   getHTTPJobConfigs (sample_env True 5 None (\<lambda>i. None)) sample_args sample_global =
     Inr (\<lparr>BackoffConfig = None, Request = sample_args, Client = []\<rparr>,
          \<lparr>client_ProxyURLs = [], client_settings = []\<rparr>, ''/x'') \<and>
   Execute (sample_env True 5 None (\<lambda>i. None)) ''/x'' 0 = Inr ''/x'' \<and>
   (''v'', ''any'') \<in> set (resp_Cookies sample_response) \<and>
   (\<exists>res. snd (singleRequestJob (sample_env True 5 None (\<lambda>i. None)) sample_global sample_args) =
            (Some res, None) \<and>
          cookies (response res) ''v'' \<noteq> None)"
proof -
  let ?E = "sample_env True 5 None (\<lambda>i. None)"
  let ?c = "\<lparr>cookie_Value = ''3'', cookie_Expire = 0\<rparr>"
  note t = unparseable_and_unlimited_cookies
      [of ?E "''bad''" "Err ''malformed''" fresh_loader "''u''" "''any''" ?c fresh_loader "''v''"
          sample_args sample_global "\<lparr>BackoffConfig = None, Request = sample_args, Client = []\<rparr>"
          "\<lparr>client_ProxyURLs = [], client_settings = []\<rparr>" "''/x''" "''/x''" "''v''" "''any''" ?c]
  have bad: "ParseBytes ?E ''bad'' = Inl (Err ''malformed'')" by (rule sample_parse)
  have any: "ParseBytes ?E ''any'' = Inr ?c" by (rule sample_parse)
  have unl: "CookieExpireUnlimited ?E = 0" by (rule sample_env_fields)
  have exp: "cookie_Expire ?c = CookieExpireUnlimited ?E" by (simp add: unl)
  have rc: "Execute ?E ''/x'' 0 = Inr ''/x''" by (simp add: sample_env_fields)
  have mem: "(''v'', ''any'') \<in> set (resp_Cookies sample_response)"
    by (simp add: sample_response_fields)
  have mem': "(''v'', ''any'') \<in> set (resp_Cookies (snd (snd (Do ?E 0 (snd (InitRequest ?E ''/x'' (AcquireRequest ?E)))))))"
    by (simp add: sample_env_fields sample_response_fields)
  have one: "cookieLoaderFunc ?E fresh_loader ''u'' ''bad'' = fresh_loader"
    by (rule t [THEN conjunct1, THEN mp, OF bad])
  have two: "ld_cookies (cookieLoaderFunc ?E fresh_loader ''v'' ''any'') ''v'' = Some (cookie_Value ?c)"
    by (rule t [THEN conjunct2, THEN conjunct1, THEN mp, OF conjI [OF any exp]])
  then have two': "ld_cookies (cookieLoaderFunc ?E fresh_loader ''v'' ''any'') ''v'' = Some ''3''"
    by simp
  have four: "\<exists>res. snd (singleRequestJob ?E sample_global sample_args) = (Some res, None) \<and>
          cookies (response res) ''v'' \<noteq> None"
    by (rule t [THEN conjunct2, THEN conjunct2, THEN conjunct2, THEN mp])
       (intro conjI sample_single_configs rc mem' any exp)
  show ?thesis
    by (intro conjI bad one any unl two' sample_single_configs rc mem four)
qed

end
